theory Spec2Isabelle
  imports Complex_Main "HOL-Library.AList" "HOL-Library.Char_ord" "HOL-Library.List_Lexorder"
begin

section \<open>Data model\<close>

text \<open>
  The program (\<^verbatim>\<open>src/app.py\<close>) reads a spreadsheet into a pandas DataFrame, adds
  classification and metric columns to it (\<^verbatim>\<open>load_and_process_data\<close>) and, in the
  last tab of the dashboard, projects the yearly flow of savings over the lifetime of the
  equipment.

  A cell of the sheet is empty (\<open>NaN\<close>, which also stands for \<open>NaT\<close>), a number, a
  text or a date. Numbers are modelled as reals: the rounding of IEEE doubles and the
  special values \<open>inf\<close> and \<open>nan\<close> as results of arithmetic are not modelled. A text is a
  list of characters, one character per code point; the accented letters of the column
  names are the Latin-1 characters of the same code point. Of a date only year, month
  and day are kept: the program reads nothing else.
\<close>

datatype cell = NaN | Num real | Str string | Timestamp int nat nat

text \<open>
  A DataFrame is a row index (here its length) and an ordered list of named columns, each
  holding one cell per row.
\<close>

record frame =
  nrows :: nat
  cols :: "(string \<times> cell list) list"

text \<open>What \<^verbatim>\<open>pd.read_excel\<close> is given: a file it cannot read, or a sheet.\<close>

datatype upload = Unreadable | Workbook frame

text \<open>
  The exceptions the modelled code can raise. \<^verbatim>\<open>load_and_process_data\<close> catches every
  exception, reports it with \<^verbatim>\<open>st.error\<close> and returns \<^verbatim>\<open>None\<close>: that outcome is
  \<open>Inl e\<close>, with \<open>e\<close> the exception caught.
\<close>

datatype error = ReadError | KeyError string | AttributeError | ValueError

definition bind_err :: "error + 'a \<Rightarrow> ('a \<Rightarrow> error + 'b) \<Rightarrow> error + 'b" where
  "bind_err m f = (case m of Inl e \<Rightarrow> Inl e | Inr x \<Rightarrow> f x)"

text \<open>
  The library functions whose result depends on text the model cannot interpret are
  parameters: trimming and upper-casing of Unicode text, the textual form of a number or a
  date (\<^verbatim>\<open>astype(str)\<close>), and the parsers behind \<^verbatim>\<open>pd.to_datetime\<close> and
  \<^verbatim>\<open>pd.to_numeric\<close> with \<^verbatim>\<open>errors='coerce'\<close> (\<open>None\<close> is the coerced failure).
  Every theorem below that mentions a library holds for each of them.
\<close>

record library =
  str_strip :: "string \<Rightarrow> string"
  str_upper :: "string \<Rightarrow> string"
  repr_cell :: "cell \<Rightarrow> string"
  parse_datetime :: "cell \<Rightarrow> (int \<times> nat \<times> nat) option"
  parse_numeric :: "cell \<Rightarrow> real option"

subsection \<open>DataFrame access\<close>

definition has_col :: "frame \<Rightarrow> string \<Rightarrow> bool" where
  "has_col df c = (c \<in> set (map fst (cols df)))"

text \<open>\<^verbatim>\<open>df[c]\<close> raises \<^verbatim>\<open>KeyError\<close> when there is no such column.\<close>

definition getitem :: "frame \<Rightarrow> string \<Rightarrow> error + cell list" where
  "getitem df c = (case map_of (cols df) c of None \<Rightarrow> Inl (KeyError c) | Some v \<Rightarrow> Inr v)"

text \<open>
  \<^verbatim>\<open>df[c] = v\<close> overwrites the column where it stands, or appends it, and raises
  \<^verbatim>\<open>ValueError\<close> when the length of the values is not the length of the index; a
  scalar on the right-hand side is broadcast over the index.
\<close>

definition setitem :: "frame \<Rightarrow> string \<Rightarrow> cell list \<Rightarrow> error + frame" where
  "setitem df c v =
     (if length v = nrows df then Inr (df\<lparr>cols := AList.update c v (cols df)\<rparr>)
      else Inl ValueError)"

definition setscalar :: "frame \<Rightarrow> string \<Rightarrow> cell \<Rightarrow> error + frame" where
  "setscalar df c x = setitem df c (replicate (nrows df) x)"

text \<open>A frame is rectangular, and its column names are distinct.\<close>

definition wf_frame :: "frame \<Rightarrow> bool" where
  "wf_frame df = (distinct (map fst (cols df)) \<and> list_all (\<lambda>p. length (snd p) = nrows df) (cols df))"

subsection \<open>Series operations, cell by cell\<close>

definition isna :: "cell \<Rightarrow> bool" where
  "isna c = (c = NaN)"

definition fillna :: "cell \<Rightarrow> cell \<Rightarrow> cell" where
  "fillna d c = (if isna c then d else c)"

text \<open>\<^verbatim>\<open>pd.to_datetime(s, errors='coerce')\<close>\<close>

definition to_datetime :: "library \<Rightarrow> cell \<Rightarrow> cell" where
  "to_datetime L c = (case c of
       NaN \<Rightarrow> NaN
     | Timestamp y m d \<Rightarrow> Timestamp y m d
     | _ \<Rightarrow> (case parse_datetime L c of Some (y, m, d) \<Rightarrow> Timestamp y m d | None \<Rightarrow> NaN))"

text \<open>\<^verbatim>\<open>pd.to_numeric(s, errors='coerce')\<close>\<close>

definition to_numeric :: "library \<Rightarrow> cell \<Rightarrow> cell" where
  "to_numeric L c = (case c of
       NaN \<Rightarrow> NaN
     | Num x \<Rightarrow> Num x
     | _ \<Rightarrow> (case parse_numeric L c of Some x \<Rightarrow> Num x | None \<Rightarrow> NaN))"

text \<open>\<^verbatim>\<open>s.astype(str)\<close>: an empty cell becomes the text \<^verbatim>\<open>nan\<close>.\<close>

definition astype_str :: "library \<Rightarrow> cell \<Rightarrow> cell" where
  "astype_str L c = (case c of
       NaN \<Rightarrow> Str ''nan''
     | Str s \<Rightarrow> Str s
     | _ \<Rightarrow> Str (repr_cell L c))"

text \<open>The \<^verbatim>\<open>.str\<close> methods act on texts and give \<open>NaN\<close> on anything else.\<close>

definition str_map :: "(string \<Rightarrow> string) \<Rightarrow> cell \<Rightarrow> cell" where
  "str_map f c = (case c of Str s \<Rightarrow> Str (f s) | _ \<Rightarrow> NaN)"

text \<open>\<^verbatim>\<open>str.zfill\<close>: zeros are inserted after a leading sign.\<close>

definition zfill :: "nat \<Rightarrow> string \<Rightarrow> string" where
  "zfill w s = (case s of
       [] \<Rightarrow> replicate w CHR ''0''
     | x # xs \<Rightarrow> if x = CHR ''+'' \<or> x = CHR ''-''
                then x # replicate (w - length s) CHR ''0'' @ xs
                else replicate (w - length s) CHR ''0'' @ s)"

text \<open>\<^verbatim>\<open>str.split(sep)\<close> for a one-character separator: never an empty list.\<close>

fun split_on :: "char \<Rightarrow> string \<Rightarrow> string list" where
  "split_on sep [] = [[]]"
| "split_on sep (x # xs) =
     (if x = sep then [] # split_on sep xs
      else (x # hd (split_on sep xs)) # tl (split_on sep xs))"

text \<open>\<^verbatim>\<open>s.str.split('-').str[i]\<close>: \<open>NaN\<close> where there is no such segment.\<close>

definition split_get :: "nat \<Rightarrow> cell \<Rightarrow> cell" where
  "split_get i c = (case c of
       Str s \<Rightarrow> (let segs = split_on CHR ''-'' s in if i < length segs then Str (segs ! i) else NaN)
     | _ \<Rightarrow> NaN)"

text \<open>\<^verbatim>\<open>s.str.extract(r'(P\d)', expand=False)\<close>: the first \<^verbatim>\<open>P\<close> followed by a digit.\<close>

definition is_digit :: "char \<Rightarrow> bool" where
  "is_digit c = (c \<in> set ''0123456789'')"

fun extract_P :: "string \<Rightarrow> string option" where
  "extract_P (a # b # cs) =
     (if a = CHR ''P'' \<and> is_digit b then Some [a, b] else extract_P (b # cs))"
| "extract_P _ = None"

definition str_extract_P :: "cell \<Rightarrow> cell" where
  "str_extract_P c = (case c of
       Str s \<Rightarrow> (case extract_P s of Some m \<Rightarrow> Str m | None \<Rightarrow> NaN)
     | _ \<Rightarrow> NaN)"

text \<open>\<^verbatim>\<open>a + b\<close> on text cells.\<close>

definition str_add :: "cell \<Rightarrow> cell \<Rightarrow> cell" where
  "str_add a b = (case (a, b) of (Str s, Str t) \<Rightarrow> Str (s @ t) | _ \<Rightarrow> NaN)"

text \<open>\<^verbatim>\<open>s.map(dict)\<close>: \<open>NaN\<close> for a key the dictionary does not have.\<close>

definition map_dict :: "(string \<times> cell) list \<Rightarrow> cell \<Rightarrow> cell" where
  "map_dict d c = (case c of
       Str s \<Rightarrow> (case map_of d s of Some v \<Rightarrow> v | None \<Rightarrow> NaN)
     | _ \<Rightarrow> NaN)"

text \<open>\<^verbatim>\<open>s.replace(a, b)\<close> on whole values.\<close>

definition replace_val :: "string \<Rightarrow> string \<Rightarrow> cell \<Rightarrow> cell" where
  "replace_val a b c = (if c = Str a then Str b else c)"

definition isin :: "string list \<Rightarrow> cell \<Rightarrow> bool" where
  "isin vs c = (case c of Str s \<Rightarrow> s \<in> set vs | _ \<Rightarrow> False)"

text \<open>Arithmetic on numeric cells; an empty operand gives an empty result.\<close>

definition num_mul :: "cell \<Rightarrow> cell \<Rightarrow> cell" where
  "num_mul a b = (case (a, b) of (Num x, Num y) \<Rightarrow> Num (x * y) | _ \<Rightarrow> NaN)"

definition num_div :: "cell \<Rightarrow> real \<Rightarrow> cell" where
  "num_div a k = (case a of Num x \<Rightarrow> Num (x / k) | _ \<Rightarrow> NaN)"

definition num_add :: "cell \<Rightarrow> cell \<Rightarrow> cell" where
  "num_add a b = (case (a, b) of (Num x, Num y) \<Rightarrow> Num (x + y) | _ \<Rightarrow> NaN)"

text \<open>Comparisons with a number: false on an empty cell.\<close>

definition num_gt :: "cell \<Rightarrow> real \<Rightarrow> bool" where
  "num_gt a k = (case a of Num x \<Rightarrow> x > k | _ \<Rightarrow> False)"

definition num_le :: "cell \<Rightarrow> real \<Rightarrow> bool" where
  "num_le a k = (case a of Num x \<Rightarrow> x \<le> k | _ \<Rightarrow> False)"

text \<open>\<^verbatim>\<open>s.dt.year\<close>\<close>

definition dt_year :: "cell \<Rightarrow> cell" where
  "dt_year c = (case c of Timestamp y m d \<Rightarrow> Num (of_int y) | _ \<Rightarrow> NaN)"

text \<open>\<^verbatim>\<open>np.where(cond, a, b)\<close> and \<^verbatim>\<open>np.select(conditions, choices, default)\<close>: the first
  condition that holds decides.\<close>

definition np_where :: "bool list \<Rightarrow> cell list \<Rightarrow> cell list \<Rightarrow> cell list" where
  "np_where cond a b = map (\<lambda>(c, x, y). if c then x else y) (zip cond (zip a b))"

fun np_select :: "bool list list \<Rightarrow> cell list \<Rightarrow> cell list \<Rightarrow> cell list" where
  "np_select (c # cs) (x # xs) dflt = np_where c (replicate (length c) x) (np_select cs xs dflt)"
| "np_select _ _ dflt = dflt"

text \<open>\<^verbatim>\<open>df[c] = f(df[src])\<close> and \<^verbatim>\<open>df[c] = f(df[a], df[b])\<close>\<close>

definition assign :: "string \<Rightarrow> string \<Rightarrow> (cell \<Rightarrow> cell) \<Rightarrow> frame \<Rightarrow> error + frame" where
  "assign c src f df = bind_err (getitem df src) (\<lambda>v. setitem df c (map f v))"

definition assign2 :: "string \<Rightarrow> string \<Rightarrow> string \<Rightarrow> (cell \<Rightarrow> cell \<Rightarrow> cell) \<Rightarrow> frame \<Rightarrow> error + frame" where
  "assign2 c a b f df =
     bind_err (getitem df a) (\<lambda>v. bind_err (getitem df b) (\<lambda>w. setitem df c (map2 f v w)))"

text \<open>A block of statements: the first exception ends it.\<close>

fun run_steps :: "(frame \<Rightarrow> error + frame) list \<Rightarrow> frame \<Rightarrow> error + frame" where
  "run_steps [] df = Inr df"
| "run_steps (s # ss) df = bind_err (s df) (run_steps ss)"

section \<open>Constants and hypotheses\<close>

abbreviation (input) e_acute :: char where "e_acute \<equiv> CHR 0xE9"
abbreviation (input) a_circ :: char where "a_circ \<equiv> CHR 0xE2"
abbreviation (input) E_acute :: char where "E_acute \<equiv> CHR 0xC9"

definition FACTEUR_CUMAC_TO_KWH :: "(string \<times> cell) list" where
  "FACTEUR_CUMAC_TO_KWH =
    [(''BAR-TH'', Num (1 / 12.16)),
     (''BAR-EN'', Num (1 / 17.29)),
     (''BAR-EQ'', Num (1 / 11.12)),
     (''BAT-TH'', Num (1 / 12.16)),
     (''AGRI-TH'', Num (1 / 12.16)),
     (''BAT-EN'', Num (1 / 17.29)),
     (''TRA'', Num (1 / 0.9615)),
     (''DEFAULT'', Num (1 / 8.11))]"

definition DUREE_VIE_EQUIPEMENT :: "(string \<times> cell) list" where
  "DUREE_VIE_EQUIPEMENT =
    [(''BAR-TH'', Num 17),
     (''AGRI-TH'', Num 17),
     (''BAR-EN'', Num 30),
     (''BAR-EQ'', Num 15),
     (''BAT-TH'', Num 17),
     (''BAT-EN'', Num 30),
     (''TRA'', Num 1),
     (''DEFAULT'', Num 10)]"

definition EMISSION_CO2_KWH :: real where "EMISSION_CO2_KWH = 0.057"
definition COUT_CHAUFFAGE_KWH :: real where "COUT_CHAUFFAGE_KWH = 0.10"
definition CONSO_MOYENNE_FOYER_KWH :: real where "CONSO_MOYENNE_FOYER_KWH = 15312"

text \<open>\<^verbatim>\<open>d[k]\<close> on a dictionary.\<close>

definition dict_item :: "(string \<times> cell) list \<Rightarrow> string \<Rightarrow> error + cell" where
  "dict_item d k = (case map_of d k of None \<Rightarrow> Inl (KeyError k) | Some v \<Rightarrow> Inr v)"

subsection \<open>Column names and labels\<close>

definition Date_de_debut :: string where "Date_de_debut = ''Date de d'' @ e_acute # ''but''"
definition Periode :: string where "Periode = CHR ''P'' # e_acute # ''riode''"
definition Total_precarite :: string where
  "Total_precarite = ''Total pr'' @ e_acute # ''carit'' @ [e_acute]"
definition Code_equipement :: string where "Code_equipement = ''Code '' @ e_acute # ''quipement''"
definition Non_renseigne :: string where "Non_renseigne = ''Non renseign'' @ [e_acute]"
definition Bat_Residentiel :: string where
  "Bat_Residentiel = CHR ''B'' # a_circ # ''t. R'' @ e_acute # ''sidentiel''"
definition Bat_Tertiaire :: string where "Bat_Tertiaire = CHR ''B'' # a_circ # ''t. Tertiaire''"
definition Precarite_energetique :: string where
  "Precarite_energetique =
     ''Pr'' @ e_acute # ''carit'' @ e_acute # '' '' @ e_acute # ''nerg'' @ e_acute # ''tique''"
definition Menage_Classique :: string where "Menage_Classique = CHR ''M'' # e_acute # ''nage Classique''"
definition Valide :: string where "Valide = ''Valid'' @ [e_acute]"
definition siren_col_8 :: string where "siren_col_8 = ''Tableau Recapitulatif champ 8''"
definition siren_col_9 :: string where "siren_col_9 = ''Tableau Recapitulatif champ 9''"

definition date_cols :: "string list" where
  "date_cols = [''Date Validation'', ''Date depot'', Date_de_debut, ''Date de fin'', ''Date de la facture'']"

definition numeric_cols :: "string list" where
  "numeric_cols = [''Total'', Total_precarite, ''Total classique'', ''Tableau Recapitulatif champ 23'']"

definition SECTEUR :: "(string \<times> cell) list" where
  "SECTEUR =
    [(''BAR'', Str Bat_Residentiel),
     (''BAT'', Str Bat_Tertiaire),
     (''TRA'', Str ''Transport''),
     (''AGRI'', Str ''Agriculture''),
     (''IND'', Str ''Industrie'')]"

section \<open>The record enricher: \<^verbatim>\<open>load_and_process_data\<close>\<close>

text \<open>\<^verbatim>\<open>df.columns = df.columns.str.strip()\<close>\<close>

definition strip_columns :: "library \<Rightarrow> frame \<Rightarrow> frame" where
  "strip_columns L df = df\<lparr>cols := map (\<lambda>p. (str_strip L (fst p), snd p)) (cols df)\<rparr>"

text \<open>Dates: each date column that is there is parsed (lines 124 to 127).\<close>

fun parse_dates :: "library \<Rightarrow> string list \<Rightarrow> frame \<Rightarrow> error + frame" where
  "parse_dates L [] df = Inr df"
| "parse_dates L (c # cs) df =
     (if has_col df c
      then bind_err (assign c c (to_datetime L) df) (parse_dates L cs)
      else parse_dates L cs df)"

text \<open>Postal code and department (lines 130 to 132).\<close>

definition code_postal :: "library \<Rightarrow> frame \<Rightarrow> error + frame" where
  "code_postal L df =
     (if has_col df ''code postal''
      then run_steps
        [assign ''code postal'' ''code postal''
           (str_map (zfill 5) \<circ> str_map (str_strip L) \<circ> astype_str L),
         assign ''departement'' ''code postal'' (str_map (take 2))] df
      else Inr df)"

text \<open>Period (lines 135 to 140).\<close>

definition periode :: "library \<Rightarrow> frame \<Rightarrow> error + frame" where
  "periode L df =
     (if has_col df ''PERIODE''
      then assign Periode ''PERIODE''
             (str_map (str_upper L) \<circ> str_map (str_strip L) \<circ> astype_str L) df
      else if has_col df ''Depot''
      then assign Periode ''Depot'' (fillna (Str ''P5'') \<circ> str_extract_P \<circ> astype_str L) df
      else setscalar df Periode (Str ''P5''))"

text \<open>Mandataire (lines 143 to 147).\<close>

definition mandataire :: "library \<Rightarrow> frame \<Rightarrow> error + frame" where
  "mandataire L df =
     (if has_col df ''Mandataire''
      then run_steps
        [assign ''Mandataire'' ''Mandataire'' (str_map (str_strip L) \<circ> astype_str L),
         assign ''Mandataire'' ''Mandataire''
           (\<lambda>c. if isin [''nan'', ''NaN''] c then Str Non_renseigne else c)] df
      else setscalar df ''Mandataire'' (Str Non_renseigne))"

text \<open>Primary numeric columns (lines 150 to 154).\<close>

fun primary_numerics :: "library \<Rightarrow> string list \<Rightarrow> frame \<Rightarrow> error + frame" where
  "primary_numerics L [] df = Inr df"
| "primary_numerics L (c # cs) df =
     (if has_col df c
      then bind_err (assign c c (fillna (Num 0) \<circ> to_numeric L) df) (primary_numerics L cs)
      else bind_err (setscalar df c (Num 0)) (primary_numerics L cs))"

text \<open>
  Equipment code (lines 157 to 185). \<open>facteur_key\<close> is the \<^verbatim>\<open>np.where\<close> of lines 162
  to 166. Without the equipment-code column the \<^verbatim>\<open>else\<close> branch writes five columns,
  \<^verbatim>\<open>FacteurKey\<close> not among them.
\<close>

definition facteur_key :: "frame \<Rightarrow> error + frame" where
  "facteur_key df =
     bind_err (getitem df ''CodeEquip_sub'') (\<lambda>sub.
     bind_err (getitem df ''CodeEquip_prefix'') (\<lambda>pre.
       setitem df ''FacteurKey''
         (np_where (map (isin [''TH'', ''EN'', ''EQ'']) sub)
            (map2 str_add (map (\<lambda>p. str_add p (Str ''-'')) pre) sub)
            pre)))"

definition equipment :: "library \<Rightarrow> frame \<Rightarrow> error + frame" where
  "equipment L df =
     (if has_col df Code_equipement
      then
        bind_err (getitem df Code_equipement) (\<lambda>v.
        bind_err (dict_item FACTEUR_CUMAC_TO_KWH ''DEFAULT'') (\<lambda>facteur_default.
        bind_err (dict_item DUREE_VIE_EQUIPEMENT ''DEFAULT'') (\<lambda>duree_default.
          let code = map (str_map (str_upper L) \<circ> str_map (str_strip L) \<circ> astype_str L) v
          in run_steps
            [\<lambda>d. setitem d ''CodeEquip_prefix'' (map (split_get 0) code),
             \<lambda>d. setitem d ''CodeEquip_sub'' (map (fillna (Str []) \<circ> split_get 1) code),
             facteur_key,
             assign ''Facteur_Conversion'' ''FacteurKey''
               (fillna facteur_default \<circ> map_dict FACTEUR_CUMAC_TO_KWH),
             assign ''Duree_Vie'' ''FacteurKey''
               (fillna duree_default \<circ> map_dict DUREE_VIE_EQUIPEMENT),
             assign ''Secteur'' ''CodeEquip_prefix'' (fillna (Str ''Autre'') \<circ> map_dict SECTEUR),
             assign ''Sous_Categorie'' ''CodeEquip_sub'' (replace_val [] ''N/A'')] df)))
      else
        bind_err (dict_item FACTEUR_CUMAC_TO_KWH ''DEFAULT'') (\<lambda>facteur_default.
        bind_err (dict_item DUREE_VIE_EQUIPEMENT ''DEFAULT'') (\<lambda>duree_default.
          run_steps
            [\<lambda>d. setscalar d ''Facteur_Conversion'' facteur_default,
             \<lambda>d. setscalar d ''Duree_Vie'' duree_default,
             \<lambda>d. setscalar d ''Secteur'' (Str ''Autre''),
             \<lambda>d. setscalar d ''Sous_Categorie'' (Str ''N/A''),
             \<lambda>d. setscalar d ''CodeEquip_prefix'' (Str ''Autre'')] df)))"

text \<open>Beneficiary type (lines 188 to 200); \<open>[]\<close> is the empty text.\<close>

definition ensure_col :: "string \<Rightarrow> frame \<Rightarrow> error + frame" where
  "ensure_col c df = (if \<not> has_col df c then setscalar df c (Str []) else Inr df)"

definition select_beneficiaire :: "frame \<Rightarrow> error + frame" where
  "select_beneficiaire df =
     bind_err (getitem df Total_precarite) (\<lambda>tp.
     bind_err (getitem df siren_col_8) (\<lambda>s8.
     bind_err (getitem df siren_col_9) (\<lambda>s9.
       let conditions = [map (\<lambda>c. num_gt c 0) tp,
                         map2 (\<lambda>a b. a \<noteq> Str [] \<or> b \<noteq> Str []) s8 s9];
           choices = [Str Precarite_energetique, Str ''Personne Morale'']
       in setitem df ''Type_Beneficiaire''
            (np_select conditions choices (replicate (nrows df) (Str Menage_Classique))))))"

definition type_beneficiaire :: "library \<Rightarrow> frame \<Rightarrow> error + frame" where
  "type_beneficiaire L df =
     run_steps
       [ensure_col siren_col_8,
        ensure_col siren_col_9,
        assign siren_col_8 siren_col_8
          (replace_val ''nan'' [] \<circ> str_map (str_strip L) \<circ> astype_str L),
        assign siren_col_9 siren_col_9
          (replace_val ''nan'' [] \<circ> str_map (str_strip L) \<circ> astype_str L),
        select_beneficiaire] df"

text \<open>
  Status and deposit year (lines 202 and 203). Both columns are read without a test of
  their presence. The \<^verbatim>\<open>.dt\<close> accessor raises \<^verbatim>\<open>AttributeError\<close> on a column that is
  not of a date type.
\<close>

definition is_datetime :: "cell \<Rightarrow> bool" where
  "is_datetime c = (case c of NaN \<Rightarrow> True | Timestamp y m d \<Rightarrow> True | _ \<Rightarrow> False)"

definition statut :: "frame \<Rightarrow> error + frame" where
  "statut df =
     assign ''Statut'' ''Date Validation''
       (\<lambda>x. if \<not> isna x then Str Valide else Str ''En cours'') df"

definition annee_depot :: "frame \<Rightarrow> error + frame" where
  "annee_depot df =
     bind_err (getitem df ''Date depot'') (\<lambda>v.
       if list_all is_datetime v then setitem df ''Annee_Depot'' (map dt_year v)
       else Inl AttributeError)"

text \<open>
  Energy, CO2 and euros (lines 206 to 216). \<^verbatim>\<open>df.get('Total', 0)\<close> gives the scalar 0
  when the column is missing, on which \<^verbatim>\<open>.fillna\<close> does not exist.
\<close>

definition kWh_cumac :: "library \<Rightarrow> frame \<Rightarrow> error + frame" where
  "kWh_cumac L df =
     (case map_of (cols df) ''Total'' of
        None \<Rightarrow> Inl AttributeError
      | Some v \<Rightarrow> setitem df ''kWh_cumac'' (map (fillna (Num 0) \<circ> to_numeric L) v))"

definition metrics :: "library \<Rightarrow> real \<Rightarrow> frame \<Rightarrow> error + frame" where
  "metrics L taux_efficacite df =
     run_steps
       [kWh_cumac L,
        assign ''GWh_cumac'' ''kWh_cumac'' (\<lambda>c. num_div c 1000000),
        assign2 ''kWh_reels_annuels'' ''kWh_cumac'' ''Facteur_Conversion''
          (\<lambda>a b. num_mul (num_mul a b) (Num taux_efficacite)),
        assign ''GWh_reels_annuels'' ''kWh_reels_annuels'' (\<lambda>c. num_div c 1000000),
        assign ''CO2_evite_tonnes_an'' ''kWh_reels_annuels''
          (\<lambda>c. num_div (num_mul c (Num EMISSION_CO2_KWH)) 1000),
        assign ''Nb_foyers_equivalents'' ''kWh_reels_annuels''
          (\<lambda>c. num_div c CONSO_MOYENNE_FOYER_KWH),
        assign ''Economies_euros_an'' ''kWh_reels_annuels''
          (\<lambda>c. num_mul c (Num COUT_CHAUFFAGE_KWH)),
        assign ''Prime_versee'' ''Tableau Recapitulatif champ 23'' (\<lambda>c. c)] df"

definition process :: "library \<Rightarrow> real \<Rightarrow> frame \<Rightarrow> error + frame" where
  "process L taux_efficacite df =
     run_steps
       [\<lambda>d. Inr (strip_columns L d),
        parse_dates L date_cols,
        code_postal L,
        periode L,
        mandataire L,
        primary_numerics L numeric_cols,
        equipment L,
        type_beneficiaire L,
        statut,
        annee_depot,
        metrics L taux_efficacite] df"

definition load_and_process_data :: "library \<Rightarrow> upload \<Rightarrow> real \<Rightarrow> error + frame" where
  "load_and_process_data L file taux_efficacite =
     (case file of
        Unreadable \<Rightarrow> Inl ReadError
      | Workbook df \<Rightarrow> process L taux_efficacite df)"

section \<open>The projection engine (lines 632 to 662)\<close>

text \<open>
  The projection works on \<^verbatim>\<open>df_filtered\<close>, a selection of rows of the enriched frame,
  with the current year and the horizon chosen on the slider. It appends one entry per
  year and operation type to \<^verbatim>\<open>projection_breakdown_list\<close>; an exception is not caught
  here and ends the script.
\<close>

record entry =
  annee :: int
  type_operation :: string
  economies_GWh_an :: real

definition Type_Operation :: string where "Type_Operation = ''Type Op'' @ e_acute # ''ration''"

text \<open>
  \<^verbatim>\<open>df.groupby(k)[v].sum()\<close>: the groups are the distinct keys in sorted order, rows
  whose key is empty are left out, and empty values count as 0. The keys the program
  groups on are texts (the enricher writes \<^verbatim>\<open>FacteurKey\<close> as text); a key cell that is
  not a text is left out like an empty one.
\<close>

definition cell_num :: "cell \<Rightarrow> real" where
  "cell_num c = (case c of Num x \<Rightarrow> x | _ \<Rightarrow> 0)"

definition keyed :: "cell list \<Rightarrow> cell list \<Rightarrow> (string \<times> real) list" where
  "keyed ks vs =
     List.map_filter (\<lambda>(k, v). case k of Str s \<Rightarrow> Some (s, cell_num v) | _ \<Rightarrow> None) (zip ks vs)"

definition groupby_sum :: "cell list \<Rightarrow> cell list \<Rightarrow> (string \<times> real) list" where
  "groupby_sum ks vs =
     (let kv = keyed ks vs
      in map (\<lambda>k. (k, sum_list (map snd (filter (\<lambda>p. fst p = k) kv))))
             (sort (remdups (map fst kv))))"

text \<open>\<^verbatim>\<open>s.nlargest(n)\<close>: the \<open>n\<close> largest values, the earlier entry first among equals.\<close>

definition nlargest :: "nat \<Rightarrow> (string \<times> real) list \<Rightarrow> (string \<times> real) list" where
  "nlargest n s = take n (sort_key (\<lambda>p. - snd p) s)"

definition top_ops :: "frame \<Rightarrow> error + string list" where
  "top_ops df =
     bind_err (getitem df ''FacteurKey'') (\<lambda>ks.
     bind_err (getitem df ''GWh_reels_annuels'') (\<lambda>vs.
       Inr (map fst (nlargest 5 (groupby_sum ks vs)))))"

text \<open>\<^verbatim>\<open>lambda x: x if x in top_ops else 'Autres'\<close>\<close>

definition type_op :: "string list \<Rightarrow> cell \<Rightarrow> cell" where
  "type_op tops x = (if isin tops x then x else Str ''Autres'')"

text \<open>Selection of the rows of a frame by a boolean mask.\<close>

definition mask_rows :: "bool list \<Rightarrow> frame \<Rightarrow> frame" where
  "mask_rows m df =
     \<lparr>nrows = length (filter (\<lambda>b. b) m),
      cols = map (\<lambda>p. (fst p, map snd (filter fst (zip m (snd p))))) (cols df)\<rparr>"

text \<open>The operations active in a year (lines 650 to 653).\<close>

definition is_active :: "int \<Rightarrow> cell \<Rightarrow> cell \<Rightarrow> bool" where
  "is_active year a d = (num_le a (of_int year) \<and> num_gt (num_add a d) (of_int year))"

definition active_ops :: "frame \<Rightarrow> int \<Rightarrow> error + frame" where
  "active_ops df_proj year =
     bind_err (getitem df_proj ''Annee_Depot'') (\<lambda>a.
     bind_err (getitem df_proj ''Duree_Vie'') (\<lambda>d.
       Inr (mask_rows (map2 (is_active year) a d) df_proj)))"

definition breakdown :: "frame \<Rightarrow> int \<Rightarrow> error + entry list" where
  "breakdown df_proj year =
     bind_err (active_ops df_proj year) (\<lambda>act.
     bind_err (getitem act Type_Operation) (\<lambda>ks.
     bind_err (getitem act ''GWh_reels_annuels'') (\<lambda>vs.
       Inr (map (\<lambda>p. \<lparr>annee = year, type_operation = fst p, economies_GWh_an = snd p\<rparr>)
                (groupby_sum ks vs)))))"

fun year_loop :: "frame \<Rightarrow> int list \<Rightarrow> error + entry list" where
  "year_loop df_proj [] = Inr []"
| "year_loop df_proj (year # years) =
     bind_err (breakdown df_proj year) (\<lambda>es.
     bind_err (year_loop df_proj years) (\<lambda>rest. Inr (es @ rest)))"

text \<open>
  \<^verbatim>\<open>not df.dropna(subset=['Annee_Depot', 'Duree_Vie']).empty\<close>: some row has both.
\<close>

definition has_projection_rows :: "frame \<Rightarrow> error + bool" where
  "has_projection_rows df =
     bind_err (getitem df ''Annee_Depot'') (\<lambda>a.
     bind_err (getitem df ''Duree_Vie'') (\<lambda>d.
       Inr (list_ex (\<lambda>p. \<not> isna (fst p) \<and> \<not> isna (snd p)) (zip a d))))"

text \<open>\<^verbatim>\<open>int(df['Annee_Depot'].min())\<close>: \<^verbatim>\<open>int\<close> truncates, and fails on \<^verbatim>\<open>nan\<close>.\<close>

definition py_int :: "real \<Rightarrow> int" where
  "py_int x = (if x \<ge> 0 then \<lfloor>x\<rfloor> else \<lceil>x\<rceil>)"

definition start_year :: "frame \<Rightarrow> error + int" where
  "start_year df =
     bind_err (getitem df ''Annee_Depot'') (\<lambda>a.
       case List.map_filter (\<lambda>c. case c of Num x \<Rightarrow> Some x | _ \<Rightarrow> None) a of
         [] \<Rightarrow> Inl ValueError
       | x # xs \<Rightarrow> Inr (py_int (fold min xs x)))"

definition projection :: "frame \<Rightarrow> int \<Rightarrow> int \<Rightarrow> error + entry list" where
  "projection df_filtered current_year horizon =
     (if has_col df_filtered ''Annee_Depot''
      then bind_err (has_projection_rows df_filtered) (\<lambda>some.
        if some
        then
          bind_err (start_year df_filtered) (\<lambda>start.
          let end_year = current_year + horizon;
              projection_years = [start..end_year]
          in bind_err (top_ops df_filtered) (\<lambda>tops.
             bind_err (assign Type_Operation ''FacteurKey'' (type_op tops) df_filtered) (\<lambda>df_proj.
               year_loop df_proj projection_years)))
        else Inr [])
      else Inr [])"

section \<open>A library instance for the examples\<close>

text \<open>
  The examples below are sheets of typed cells (numbers as numbers, dates as dates) with
  ASCII texts. For them the library is: trimming of ASCII white space, upper-casing of
  the letters a to z, and no parsing of text into numbers or dates. The textual form of
  a number or a date is not computed (a placeholder stands for it); no example converts
  a number or a date to text.
\<close>

definition is_space :: "char \<Rightarrow> bool" where
  "is_space c = (c \<in> set [CHR '' '', CHR 0x09, CHR 0x0A, CHR 0x0B, CHR 0x0C, CHR 0x0D])"

definition ascii_strip :: "string \<Rightarrow> string" where
  "ascii_strip s = rev (dropWhile is_space (rev (dropWhile is_space s)))"

definition ascii_upper_char :: "char \<Rightarrow> char" where
  "ascii_upper_char c =
     (case map_of (zip ''abcdefghijklmnopqrstuvwxyz'' ''ABCDEFGHIJKLMNOPQRSTUVWXYZ'') c of
        Some u \<Rightarrow> u
      | None \<Rightarrow> c)"

definition ascii_lib :: library where
  "ascii_lib =
     \<lparr>str_strip = ascii_strip,
      str_upper = map ascii_upper_char,
      repr_cell = (\<lambda>c. ''?''),
      parse_datetime = (\<lambda>c. None),
      parse_numeric = (\<lambda>c. None)\<rparr>"

section \<open>Proof device: steps that write only given columns\<close>

text \<open>
  A step \<open>writes W\<close> when, whenever it succeeds, it keeps the row index, keeps a
  well-formed frame well formed, removes no column, and leaves every column outside
  \<open>W\<close> as it was.
\<close>

definition writes :: "string set \<Rightarrow> (frame \<Rightarrow> error + frame) \<Rightarrow> bool" where
  "writes W s = (\<forall>df df'. s df = Inr df' \<longrightarrow>
       nrows df' = nrows df \<and> (wf_frame df \<longrightarrow> wf_frame df') \<and>
       (\<forall>c. has_col df c \<longrightarrow> has_col df' c) \<and>
       (\<forall>c. c \<notin> W \<longrightarrow> getitem df' c = getitem df c))"

text \<open>The columns written by the sections of the enricher.\<close>

definition equipment_cols :: "string set" where
  "equipment_cols =
     {''CodeEquip_prefix'', ''CodeEquip_sub'', ''FacteurKey'', ''Facteur_Conversion'',
      ''Duree_Vie'', ''Secteur'', ''Sous_Categorie''}"

definition beneficiaire_cols :: "string set" where
  "beneficiaire_cols = {siren_col_8, siren_col_9, ''Type_Beneficiaire''}"

definition metric_cols :: "string set" where
  "metric_cols =
     {''kWh_cumac'', ''GWh_cumac'', ''kWh_reels_annuels'', ''GWh_reels_annuels'',
      ''CO2_evite_tonnes_an'', ''Nb_foyers_equivalents'', ''Economies_euros_an'',
      ''Prime_versee''}"


section \<open>The beneficiary type in the words of the specification\<close>

text \<open>
  The priority order of the specification, for one row: a precarity amount above zero
  first, then the presence of a legal-entity identifier in either field, else the
  standard household.
\<close>

definition beneficiaire_of :: "cell \<Rightarrow> cell \<Rightarrow> cell \<Rightarrow> cell" where
  "beneficiaire_of precarite id8 id9 =
     (if num_gt precarite 0 then Str Precarite_energetique
      else if id8 \<noteq> Str [] \<or> id9 \<noteq> Str [] then Str ''Personne Morale''
      else Str Menage_Classique)"

section \<open>Proof device: the enricher before its metrics\<close>

text \<open>
  The sections of the enricher that do not use the efficiency rate, and the columns
  written before the equipment mapping.
\<close>

definition prepare :: "library \<Rightarrow> frame \<Rightarrow> error + frame" where
  "prepare L T =
     run_steps
       [parse_dates L date_cols, code_postal L, periode L, mandataire L,
        primary_numerics L numeric_cols, equipment L, type_beneficiaire L,
        statut, annee_depot] (strip_columns L T)"

definition pre_cols :: "string set" where
  "pre_cols =
     set date_cols \<union> {''code postal'', ''departement'', Periode, ''Mandataire''} \<union>
     set numeric_cols"

section \<open>Identifier fields of the input\<close>

text \<open>
  An identifier column as line 190 leaves it: the column of the table, or a column of
  empty texts when the table has no such column. The trimmed text of a cell is what
  \<^verbatim>\<open>astype(str).str.strip()\<close> makes of it.
\<close>

definition identifier_column :: "frame \<Rightarrow> string \<Rightarrow> cell list" where
  "identifier_column df c =
     (case getitem df c of Inl e \<Rightarrow> replicate (nrows df) (Str []) | Inr v \<Rightarrow> v)"

definition trimmed_text :: "library \<Rightarrow> cell \<Rightarrow> cell" where
  "trimmed_text L x = str_map (str_strip L) (astype_str L x)"

section \<open>The equipment key in the words of the specification\<close>

text \<open>
  The key of a code: the part before the first \<^verbatim>\<open>-\<close>, followed by \<^verbatim>\<open>-\<close> and the second segment
  when that segment is one of \<^verbatim>\<open>TH\<close>, \<^verbatim>\<open>EN\<close>, \<^verbatim>\<open>EQ\<close>. The second segment is the text between the
  first \<^verbatim>\<open>-\<close> and the next one (or the end); a code without \<^verbatim>\<open>-\<close> has none.
\<close>

definition code_prefix :: "string \<Rightarrow> string" where
  "code_prefix s = takeWhile (\<lambda>c. c \<noteq> CHR ''-'') s"

definition second_segment :: "string \<Rightarrow> string option" where
  "second_segment s =
     (case dropWhile (\<lambda>c. c \<noteq> CHR ''-'') s of
        [] \<Rightarrow> None
      | d # r \<Rightarrow> Some (takeWhile (\<lambda>c. c \<noteq> CHR ''-'') r))"

definition spec_equipment_key :: "string \<Rightarrow> string" where
  "spec_equipment_key s =
     (case second_segment s of
        None \<Rightarrow> code_prefix s
      | Some g \<Rightarrow> if g \<in> set [''TH'', ''EN'', ''EQ''] then code_prefix s @ ''-'' @ g
                  else code_prefix s)"

text \<open>
  The text on which lines 158 to 160 split: the cell as text, trimmed and in upper case.
\<close>

definition text_of :: "library \<Rightarrow> cell \<Rightarrow> string" where
  "text_of L c = (case c of NaN \<Rightarrow> ''nan'' | Str s \<Rightarrow> s | _ \<Rightarrow> repr_cell L c)"

definition normalised_code :: "library \<Rightarrow> cell \<Rightarrow> string" where
  "normalised_code L c = str_upper L (str_strip L (text_of L c))"

text \<open>The \<^verbatim>\<open>np.where\<close> of lines 162 to 166 on one row, from the text that is split.\<close>

definition key_cell :: "cell \<Rightarrow> cell" where
  "key_cell c =
     (if isin [''TH'', ''EN'', ''EQ''] (fillna (Str []) (split_get 1 c))
      then str_add (str_add (split_get 0 c) (Str ''-'')) (fillna (Str []) (split_get 1 c))
      else split_get 0 c)"

section \<open>Reading a row of the enriched table\<close>

text \<open>
  The cell of a column in a row (\<open>NaN\<close> when the table has no such column), the order of
  two numeric cells, and the four fields of a row that depend on the efficiency rate:
  real annual energy, avoided CO2, equivalent households and avoided cost.
\<close>

definition cell_at :: "frame \<Rightarrow> string \<Rightarrow> nat \<Rightarrow> cell" where
  "cell_at df c i = (case getitem df c of Inl e \<Rightarrow> NaN | Inr v \<Rightarrow> v ! i)"

definition num_lt :: "cell \<Rightarrow> cell \<Rightarrow> bool" where
  "num_lt a b = (case (a, b) of (Num x, Num y) \<Rightarrow> x < y | _ \<Rightarrow> False)"

definition rate_fields :: "frame \<Rightarrow> nat \<Rightarrow> cell list" where
  "rate_fields df i =
     map (\<lambda>c. cell_at df c i)
       [''kWh_reels_annuels'', ''CO2_evite_tonnes_an'', ''Nb_foyers_equivalents'',
        ''Economies_euros_an'']"

section \<open>The labels of a year in the projection\<close>

text \<open>The distinct category labels among the entries of a year.\<close>

definition labels_of_year :: "entry list \<Rightarrow> int \<Rightarrow> string list" where
  "labels_of_year out y = remdups (map type_operation (filter (\<lambda>e. annee e = y) out))"

section \<open>The lifetime window in the words of the specification\<close>

text \<open>
  A record with the deposit year \<open>Y\<close> and the lifetime \<open>L\<close> is in its window at the year \<open>y\<close>
  when \<open>Y \<le> y < Y + L\<close>; a record without a deposit year or a lifetime never is.
  \<open>window_rows\<close> are the indices of the rows in their window, in the order of the table.
\<close>

definition in_window :: "int \<Rightarrow> cell \<Rightarrow> cell \<Rightarrow> bool" where
  "in_window y a d =
     (case (a, d) of (Num Y, Num L) \<Rightarrow> Y \<le> of_int y \<and> of_int y < Y + L | _ \<Rightarrow> False)"

definition window_rows :: "int \<Rightarrow> cell list \<Rightarrow> cell list \<Rightarrow> nat list" where
  "window_rows y a d = filter (\<lambda>i. in_window y (a ! i) (d ! i)) [0..<length a]"

section \<open>Proof device: steps that commute with a selection of rows\<close>

text \<open>
  \<open>mask_col m v\<close> are the cells of a column in the rows where the mask holds, as
  \<open>mask_rows\<close> keeps them. A step \<open>s\<close> commutes with the selection \<open>m\<close>, up to \<open>s'\<close>,
  when its success on a rectangular table makes \<open>s'\<close> succeed on the selected rows, with
  the selected rows of the result of \<open>s\<close> as result.
\<close>

definition mask_col :: "bool list \<Rightarrow> 'a list \<Rightarrow> 'a list" where
  "mask_col m v = map snd (filter fst (zip m v))"



section \<open>Example sheets\<close>

text \<open>A sheet with a deposit date and an amount, and no validation-date column.\<close>

definition sheet_no_validation :: frame where
  "sheet_no_validation =
     \<lparr>nrows = 1,
      cols = [(''Total'', [Num 2500]), (''Date depot'', [Timestamp 2023 6 15])]\<rparr>"

text \<open>
  The row of the example scenario of the specification: an amount, an equipment code and
  a deposit date; and the same row in a sheet that also has a validation-date column.
\<close>

definition sheet_scenario :: frame where
  "sheet_scenario =
     \<lparr>nrows = 1,
      cols = [(''Total'', [Num 100000]),
              (Code_equipement, [Str ''BAR-TH-001'']),
              (''Date depot'', [Timestamp 2022 3 1])]\<rparr>"

definition sheet_scenario_validated :: frame where
  "sheet_scenario_validated =
     \<lparr>nrows = 1,
      cols = [(''Total'', [Num 100000]),
              (Code_equipement, [Str ''BAR-TH-001'']),
              (''Date depot'', [Timestamp 2022 3 1]),
              (''Date Validation'', [Timestamp 2022 4 12])]\<rparr>"

text \<open>A sheet with both date columns and no equipment-code column.\<close>

definition sheet_no_code :: frame where
  "sheet_no_code =
     \<lparr>nrows = 2,
      cols = [(''Date Validation'', [Timestamp 2023 2 1, NaN]),
              (''Date depot'', [Timestamp 2023 1 10, Timestamp 2024 5 3]),
              (''Total'', [Num 40000, Num 60000])]\<rparr>"

text \<open>One operation deposited in 2020 with a lifetime of 5 years.\<close>

definition frame_2020_5 :: frame where
  "frame_2020_5 =
     \<lparr>nrows = 1,
      cols = [(''Annee_Depot'', [Num 2020]), (''Duree_Vie'', [Num 5]),
              (''FacteurKey'', [Str ''BAR-EQ'']), (Type_Operation, [Str ''BAR-EQ'']),
              (''GWh_reels_annuels'', [Num (1 / 1000)])]\<rparr>"

text \<open>
  Three case records with a reference column that the enricher does not know: a
  household in energy precarity that also carries a business identifier, a record with a
  lower-case equipment code and the text \<^verbatim>\<open>nan\<close> as identifier, and a legal entity
  with an amount of zero.
\<close>

definition sheet_dossiers :: frame where
  "sheet_dossiers =
     \<lparr>nrows = 3,
      cols = [(''Reference'', [Str ''D-001'', Str ''D-002'', Str ''D-003'']),
              (''Date Validation'', [Timestamp 2023 2 1, NaN, Timestamp 2024 7 9]),
              (''Date depot'', [Timestamp 2023 1 10, Timestamp 2024 5 3, Timestamp 2024 6 21]),
              (''Total'', [Num 100000, Num 60000, Num 0]),
              (Total_precarite, [Num 50000, Num 0, Num 0]),
              (Code_equipement, [Str ''BAR-TH-101'', Str '' bat-en-102'', Str ''TRA-EQ-103'']),
              (siren_col_8, [Str ''552100554'', Str '' nan '', Str ''732829320'']),
              (siren_col_9, [NaN, NaN, NaN])]\<rparr>"

text \<open>A sheet whose equipment code is written in lower case.\<close>

definition sheet_lower_case :: frame where
  "sheet_lower_case =
     \<lparr>nrows = 1,
      cols = [(''Date Validation'', [Timestamp 2023 2 1]),
              (''Date depot'', [Timestamp 2023 1 10]),
              (''Total'', [Num 40000]),
              (Code_equipement, [Str ''bar-th-001''])]\<rparr>"

text \<open>
  Seven operations of seven categories, deposited in 2024 with a lifetime of two years,
  with real annual savings from 7 GWh down to 1 GWh.
\<close>

definition frame_seven_keys :: frame where
  "frame_seven_keys =
     \<lparr>nrows = 7,
      cols = [(''Annee_Depot'', replicate 7 (Num 2024)),
              (''Duree_Vie'', replicate 7 (Num 2)),
              (''FacteurKey'',
                 [Str ''BAR-TH'', Str ''BAR-EN'', Str ''BAR-EQ'', Str ''BAT-TH'', Str ''BAT-EN'',
                  Str ''TRA'', Str ''AGRI-TH'']),
              (''GWh_reels_annuels'', [Num 7, Num 6, Num 5, Num 4, Num 3, Num 2, Num 1])]\<rparr>"

section \<open>Frames: reading and writing columns\<close>

lemma bind_err_Inl [simp]: "bind_err (Inl e) f = Inl e"
  by (simp add: bind_err_def)

lemma bind_err_Inr [simp]: "bind_err (Inr x) f = f x"
  by (simp add: bind_err_def)

lemma bind_err_eq_Inr: "bind_err m f = Inr y \<longleftrightarrow> (\<exists>x. m = Inr x \<and> f x = Inr y)"
  by (cases m) simp_all

lemma getitem_eq_Inr: "getitem df c = Inr v \<longleftrightarrow> map_of (cols df) c = Some v"
  by (simp add: getitem_def split: option.splits)

lemma getitem_has_col: "has_col df c \<Longrightarrow> \<exists>v. getitem df c = Inr v"
  unfolding has_col_def getitem_def
  by (cases "map_of (cols df) c") (auto simp: map_of_eq_None_iff)

lemma getitem_no_col: "\<not> has_col df c \<Longrightarrow> getitem df c = Inl (KeyError c)"
  unfolding has_col_def getitem_def
  by (cases "map_of (cols df) c") (auto simp: map_of_eq_None_iff[symmetric])

lemma has_col_getitem: "has_col df c \<longleftrightarrow> (\<exists>v. getitem df c = Inr v)"
  using getitem_has_col getitem_no_col by (metis Inl_Inr_False)

lemma setitem_eq_Inr:
  "setitem df c v = Inr df' \<longleftrightarrow>
     length v = nrows df \<and> df' = df\<lparr>cols := AList.update c v (cols df)\<rparr>"
  by (auto simp: setitem_def)

lemma getitem_setitem:
  "setitem df c v = Inr df' \<Longrightarrow> getitem df' c' = (if c' = c then Inr v else getitem df c')"
  by (auto simp: getitem_def setitem_eq_Inr update_conv')

lemma has_col_setitem:
  "setitem df c v = Inr df' \<Longrightarrow> has_col df' c' \<longleftrightarrow> c' = c \<or> has_col df c'"
  by (auto simp: has_col_def setitem_eq_Inr dom_update)

lemma nrows_setitem: "setitem df c v = Inr df' \<Longrightarrow> nrows df' = nrows df"
  by (auto simp: setitem_eq_Inr)

lemma list_all_update:
  "list_all P al \<Longrightarrow> P (k, v) \<Longrightarrow> list_all P (AList.update k v al)"
  by (induction al) auto

lemma wf_setitem: "setitem df c v = Inr df' \<Longrightarrow> wf_frame df \<Longrightarrow> wf_frame df'"
  by (auto simp: wf_frame_def setitem_eq_Inr distinct_update list_all_update)

lemma wf_getitem_length: "wf_frame df \<Longrightarrow> getitem df c = Inr v \<Longrightarrow> length v = nrows df"
  by (auto simp: wf_frame_def getitem_eq_Inr list_all_iff dest!: map_of_SomeD)

lemma setscalar_Inr: "\<exists>df'. setscalar df c x = Inr df'"
  by (simp add: setscalar_def setitem_def)

section \<open>Steps that only write given columns\<close>

lemma writesI:
  assumes "\<And>df df'. s df = Inr df' \<Longrightarrow> nrows df' = nrows df"
      and "\<And>df df'. s df = Inr df' \<Longrightarrow> wf_frame df \<Longrightarrow> wf_frame df'"
      and "\<And>df df' c. s df = Inr df' \<Longrightarrow> has_col df c \<Longrightarrow> has_col df' c"
      and "\<And>df df' c. s df = Inr df' \<Longrightarrow> c \<notin> W \<Longrightarrow> getitem df' c = getitem df c"
  shows "writes W s"
  using assms unfolding writes_def by blast

lemma writes_mono: "writes W s \<Longrightarrow> W \<subseteq> W' \<Longrightarrow> writes W' s"
  unfolding writes_def by blast

lemma writes_nrows: "writes W s \<Longrightarrow> s df = Inr df' \<Longrightarrow> nrows df' = nrows df"
  unfolding writes_def by blast

lemma writes_wf: "writes W s \<Longrightarrow> s df = Inr df' \<Longrightarrow> wf_frame df \<Longrightarrow> wf_frame df'"
  unfolding writes_def by blast

lemma writes_has_col: "writes W s \<Longrightarrow> s df = Inr df' \<Longrightarrow> has_col df c \<Longrightarrow> has_col df' c"
  unfolding writes_def by blast

lemma writes_frame: "writes W s \<Longrightarrow> s df = Inr df' \<Longrightarrow> c \<notin> W \<Longrightarrow> getitem df' c = getitem df c"
  unfolding writes_def by blast

lemma writes_Inr: "writes W Inr"
  by (simp add: writes_def)

lemma writes_setitem: "c \<in> W \<Longrightarrow> writes W (\<lambda>df. setitem df c (f df))"
  by (rule writesI) (auto simp: has_col_setitem getitem_setitem nrows_setitem wf_setitem)

lemma writes_setscalar: "c \<in> W \<Longrightarrow> writes W (\<lambda>df. setscalar df c x)"
  unfolding setscalar_def by (rule writes_setitem)

lemma writes_assign: "c \<in> W \<Longrightarrow> writes W (assign c src f)"
  by (rule writesI)
     (auto simp: assign_def bind_err_eq_Inr has_col_setitem getitem_setitem nrows_setitem
                 wf_setitem)

lemma writes_assign2: "c \<in> W \<Longrightarrow> writes W (assign2 c a b f)"
  by (rule writesI)
     (auto simp: assign2_def bind_err_eq_Inr has_col_setitem getitem_setitem nrows_setitem
                 wf_setitem)

lemma writes_comp:
  assumes "writes W s" and "writes W t"
  shows "writes W (\<lambda>df. bind_err (s df) t)"
proof (rule writesI)
  fix df df' assume "bind_err (s df) t = Inr df'"
  then obtain d where d: "s df = Inr d" "t d = Inr df'"
    by (auto simp: bind_err_eq_Inr)
  show "nrows df' = nrows df"
    using d assms by (metis writes_nrows)
  show "wf_frame df'" if "wf_frame df"
    using d assms that by (metis writes_wf)
  show "has_col df' c" if "has_col df c" for c
    using d assms that by (metis writes_has_col)
  show "getitem df' c = getitem df c" if "c \<notin> W" for c
    using d assms that by (metis writes_frame)
qed

lemma writes_bind:
  assumes "\<And>x. writes W (f x)"
  shows "writes W (\<lambda>df. bind_err (g df) (\<lambda>x. f x df))"
  using assms unfolding writes_def bind_err_eq_Inr by blast

lemma writes_if:
  assumes "writes W s" and "writes W t"
  shows "writes W (\<lambda>df. if b df then s df else t df)"
  using assms unfolding writes_def by auto

lemma writes_run_steps: "list_all (writes W) ss \<Longrightarrow> writes W (run_steps ss)"
proof (induction ss)
  case Nil
  have "run_steps [] = Inr" by (rule ext) simp
  then show ?case by (simp add: writes_Inr)
next
  case (Cons s ss)
  have "run_steps (s # ss) = (\<lambda>df. bind_err (s df) (run_steps ss))"
    by (rule ext) simp
  with Cons show ?case by (simp add: writes_comp)
qed

lemma run_steps_append:
  "run_steps (xs @ ys) df = bind_err (run_steps xs df) (run_steps ys)"
  by (induction xs arbitrary: df) (auto simp: bind_err_def split: sum.splits)

section \<open>What each section of the enricher writes\<close>

lemma writes_parse_dates: "writes (set cs) (parse_dates L cs)"
proof (induction cs)
  case Nil
  have "parse_dates L [] = Inr" by (rule ext) simp
  then show ?case by (simp add: writes_Inr)
next
  case (Cons c cs)
  have eq: "parse_dates L (c # cs) =
      (\<lambda>df. if has_col df c then bind_err (assign c c (to_datetime L) df) (parse_dates L cs)
            else parse_dates L cs df)"
    by (rule ext) simp
  have rest: "writes (set (c # cs)) (parse_dates L cs)"
    by (rule writes_mono[OF Cons.IH]) auto
  show ?case
    unfolding eq
    by (intro writes_if writes_comp writes_assign rest) simp
qed

lemma writes_primary_numerics: "writes (set cs) (primary_numerics L cs)"
proof (induction cs)
  case Nil
  have "primary_numerics L [] = Inr" by (rule ext) simp
  then show ?case by (simp add: writes_Inr)
next
  case (Cons c cs)
  have eq: "primary_numerics L (c # cs) =
      (\<lambda>df. if has_col df c
            then bind_err (assign c c (fillna (Num 0) \<circ> to_numeric L) df) (primary_numerics L cs)
            else bind_err (setscalar df c (Num 0)) (primary_numerics L cs))"
    by (rule ext) simp
  have rest: "writes (set (c # cs)) (primary_numerics L cs)"
    by (rule writes_mono[OF Cons.IH]) auto
  show ?case
    unfolding eq
    by (intro writes_if writes_comp writes_assign writes_setscalar rest) simp_all
qed

lemma writes_code_postal: "writes {''code postal'', ''departement''} (code_postal L)"
proof -
  have eq: "code_postal L = (\<lambda>df. if has_col df ''code postal''
      then run_steps
        [assign ''code postal'' ''code postal''
           (str_map (zfill 5) \<circ> str_map (str_strip L) \<circ> astype_str L),
         assign ''departement'' ''code postal'' (str_map (take 2))] df
      else Inr df)"
    by (rule ext) (simp add: code_postal_def)
  show ?thesis
    unfolding eq
    by (intro writes_if writes_run_steps writes_Inr) (simp add: writes_assign)
qed

lemma writes_periode: "writes {Periode} (periode L)"
proof -
  have eq: "periode L = (\<lambda>df. if has_col df ''PERIODE''
      then assign Periode ''PERIODE''
             (str_map (str_upper L) \<circ> str_map (str_strip L) \<circ> astype_str L) df
      else if has_col df ''Depot''
      then assign Periode ''Depot'' (fillna (Str ''P5'') \<circ> str_extract_P \<circ> astype_str L) df
      else setscalar df Periode (Str ''P5''))"
    by (rule ext) (simp add: periode_def)
  show ?thesis
    unfolding eq
    by (intro writes_if writes_assign writes_setscalar) simp_all
qed

lemma writes_mandataire: "writes {''Mandataire''} (mandataire L)"
proof -
  have eq: "mandataire L = (\<lambda>df. if has_col df ''Mandataire''
      then run_steps
        [assign ''Mandataire'' ''Mandataire'' (str_map (str_strip L) \<circ> astype_str L),
         assign ''Mandataire'' ''Mandataire''
           (\<lambda>c. if isin [''nan'', ''NaN''] c then Str Non_renseigne else c)] df
      else setscalar df ''Mandataire'' (Str Non_renseigne))"
    by (rule ext) (simp add: mandataire_def)
  show ?thesis
    unfolding eq
    by (intro writes_if writes_run_steps writes_setscalar) (simp_all add: writes_assign)
qed

lemma writes_facteur_key: "''FacteurKey'' \<in> W \<Longrightarrow> writes W facteur_key"
  by (rule writesI)
     (auto simp: facteur_key_def bind_err_eq_Inr has_col_setitem getitem_setitem nrows_setitem
                 wf_setitem)

lemma writes_equipment: "writes equipment_cols (equipment L)"
proof -
  have eq: "equipment L = (\<lambda>df. if has_col df Code_equipement
      then
        bind_err (getitem df Code_equipement) (\<lambda>v.
        bind_err (dict_item FACTEUR_CUMAC_TO_KWH ''DEFAULT'') (\<lambda>facteur_default.
        bind_err (dict_item DUREE_VIE_EQUIPEMENT ''DEFAULT'') (\<lambda>duree_default.
          run_steps
            [\<lambda>d. setitem d ''CodeEquip_prefix'' (map (split_get 0)
                 (map (str_map (str_upper L) \<circ> str_map (str_strip L) \<circ> astype_str L) v)),
             \<lambda>d. setitem d ''CodeEquip_sub'' (map (fillna (Str []) \<circ> split_get 1)
                 (map (str_map (str_upper L) \<circ> str_map (str_strip L) \<circ> astype_str L) v)),
             facteur_key,
             assign ''Facteur_Conversion'' ''FacteurKey''
               (fillna facteur_default \<circ> map_dict FACTEUR_CUMAC_TO_KWH),
             assign ''Duree_Vie'' ''FacteurKey''
               (fillna duree_default \<circ> map_dict DUREE_VIE_EQUIPEMENT),
             assign ''Secteur'' ''CodeEquip_prefix'' (fillna (Str ''Autre'') \<circ> map_dict SECTEUR),
             assign ''Sous_Categorie'' ''CodeEquip_sub'' (replace_val [] ''N/A'')] df)))
      else
        bind_err (dict_item FACTEUR_CUMAC_TO_KWH ''DEFAULT'') (\<lambda>facteur_default.
        bind_err (dict_item DUREE_VIE_EQUIPEMENT ''DEFAULT'') (\<lambda>duree_default.
          run_steps
            [\<lambda>d. setscalar d ''Facteur_Conversion'' facteur_default,
             \<lambda>d. setscalar d ''Duree_Vie'' duree_default,
             \<lambda>d. setscalar d ''Secteur'' (Str ''Autre''),
             \<lambda>d. setscalar d ''Sous_Categorie'' (Str ''N/A''),
             \<lambda>d. setscalar d ''CodeEquip_prefix'' (Str ''Autre'')] df)))"
    by (rule ext) (simp add: equipment_def Let_def)
  show ?thesis
    unfolding eq
    by (intro writes_if writes_bind writes_run_steps)
       (simp_all add: writes_assign writes_setscalar writes_setitem writes_facteur_key
                      equipment_cols_def)
qed

lemma writes_ensure_col: "c \<in> W \<Longrightarrow> writes W (ensure_col c)"
proof -
  have eq: "ensure_col c = (\<lambda>df. if \<not> has_col df c then setscalar df c (Str []) else Inr df)"
    by (rule ext) (simp add: ensure_col_def)
  show "c \<in> W \<Longrightarrow> writes W (ensure_col c)"
    unfolding eq by (intro writes_if writes_setscalar writes_Inr)
qed

lemma writes_select_beneficiaire: "''Type_Beneficiaire'' \<in> W \<Longrightarrow> writes W select_beneficiaire"
  by (rule writesI)
     (auto simp: select_beneficiaire_def Let_def bind_err_eq_Inr has_col_setitem getitem_setitem
                 nrows_setitem wf_setitem)

lemma writes_type_beneficiaire: "writes beneficiaire_cols (type_beneficiaire L)"
proof -
  have eq: "type_beneficiaire L = run_steps
       [ensure_col siren_col_8,
        ensure_col siren_col_9,
        assign siren_col_8 siren_col_8
          (replace_val ''nan'' [] \<circ> str_map (str_strip L) \<circ> astype_str L),
        assign siren_col_9 siren_col_9
          (replace_val ''nan'' [] \<circ> str_map (str_strip L) \<circ> astype_str L),
        select_beneficiaire]"
    by (rule ext) (simp add: type_beneficiaire_def)
  show ?thesis
    unfolding eq
    by (intro writes_run_steps)
       (simp add: writes_assign writes_ensure_col writes_select_beneficiaire beneficiaire_cols_def)
qed

lemma writes_statut: "writes {''Statut''} statut"
proof -
  have eq: "statut = assign ''Statut'' ''Date Validation''
       (\<lambda>x. if \<not> isna x then Str Valide else Str ''En cours'')"
    by (rule ext) (simp add: statut_def)
  show ?thesis unfolding eq by (rule writes_assign) simp
qed

lemma writes_annee_depot: "writes {''Annee_Depot''} annee_depot"
  by (rule writesI)
     (auto simp: annee_depot_def bind_err_eq_Inr has_col_setitem getitem_setitem nrows_setitem
                 wf_setitem split: if_splits)

lemma writes_kWh_cumac: "''kWh_cumac'' \<in> W \<Longrightarrow> writes W (kWh_cumac L)"
  by (rule writesI)
     (auto simp: kWh_cumac_def has_col_setitem getitem_setitem nrows_setitem wf_setitem
           split: option.splits)

lemma writes_metrics: "writes metric_cols (metrics L t)"
proof -
  have eq: "metrics L t = run_steps
       [kWh_cumac L,
        assign ''GWh_cumac'' ''kWh_cumac'' (\<lambda>c. num_div c 1000000),
        assign2 ''kWh_reels_annuels'' ''kWh_cumac'' ''Facteur_Conversion''
          (\<lambda>a b. num_mul (num_mul a b) (Num t)),
        assign ''GWh_reels_annuels'' ''kWh_reels_annuels'' (\<lambda>c. num_div c 1000000),
        assign ''CO2_evite_tonnes_an'' ''kWh_reels_annuels''
          (\<lambda>c. num_div (num_mul c (Num EMISSION_CO2_KWH)) 1000),
        assign ''Nb_foyers_equivalents'' ''kWh_reels_annuels''
          (\<lambda>c. num_div c CONSO_MOYENNE_FOYER_KWH),
        assign ''Economies_euros_an'' ''kWh_reels_annuels''
          (\<lambda>c. num_mul c (Num COUT_CHAUFFAGE_KWH)),
        assign ''Prime_versee'' ''Tableau Recapitulatif champ 23'' (\<lambda>c. c)]"
    by (rule ext) (simp add: metrics_def)
  show ?thesis
    unfolding eq
    by (intro writes_run_steps)
       (simp add: writes_assign writes_assign2 writes_kWh_cumac metric_cols_def)
qed

section \<open>The enricher as a chain of sections\<close>

lemma process_eq_Inr:
  "process L t T = Inr E \<longleftrightarrow>
     (\<exists>d1 d2 d3 d4 d5 d6 d7 d8 d9.
        parse_dates L date_cols (strip_columns L T) = Inr d1 \<and>
        code_postal L d1 = Inr d2 \<and> periode L d2 = Inr d3 \<and> mandataire L d3 = Inr d4 \<and>
        primary_numerics L numeric_cols d4 = Inr d5 \<and> equipment L d5 = Inr d6 \<and>
        type_beneficiaire L d6 = Inr d7 \<and> statut d7 = Inr d8 \<and> annee_depot d8 = Inr d9 \<and>
        metrics L t d9 = Inr E)"
  by (simp add: process_def bind_err_eq_Inr)




lemma nrows_strip_columns [simp]: "nrows (strip_columns L T) = nrows T"
  by (simp add: strip_columns_def)


section \<open>Beneficiary type\<close>

lemma np_where_nth:
  "i < length c \<Longrightarrow> length a = length c \<Longrightarrow> length b = length c \<Longrightarrow>
   np_where c a b ! i = (if c ! i then a ! i else b ! i)"
  by (simp add: np_where_def)

lemma length_np_where:
  "length a = length c \<Longrightarrow> length b = length c \<Longrightarrow> length (np_where c a b) = length c"
  by (simp add: np_where_def)

lemma np_select2_nth:
  assumes "i < n" and "length c1 = n" and "length c2 = n"
  shows "np_select [c1, c2] [x1, x2] (replicate n d) ! i
           = (if c1 ! i then x1 else if c2 ! i then x2 else d)"
  using assms by (simp add: np_where_nth length_np_where)

lemma beneficiaire_names:
  "Total_precarite \<noteq> ''Type_Beneficiaire''" "siren_col_8 \<noteq> ''Type_Beneficiaire''"
  "siren_col_9 \<noteq> ''Type_Beneficiaire''" "siren_col_8 \<noteq> siren_col_9"
  "Total_precarite \<noteq> siren_col_8" "Total_precarite \<noteq> siren_col_9"
  by (simp_all add: Total_precarite_def siren_col_8_def siren_col_9_def)

lemma select_beneficiaire_result:
  assumes "select_beneficiaire d = Inr d'" and "wf_frame d"
  shows "\<exists>tp s8 s9 tb.
           getitem d' Total_precarite = Inr tp \<and> getitem d' siren_col_8 = Inr s8 \<and>
           getitem d' siren_col_9 = Inr s9 \<and> getitem d' ''Type_Beneficiaire'' = Inr tb \<and>
           getitem d siren_col_8 = Inr s8 \<and> getitem d siren_col_9 = Inr s9 \<and>
           (\<forall>i < nrows d. tb ! i = beneficiaire_of (tp ! i) (s8 ! i) (s9 ! i))"
proof -
  from assms(1) obtain tp s8 s9 where
    tp: "getitem d Total_precarite = Inr tp" and s8: "getitem d siren_col_8 = Inr s8" and
    s9: "getitem d siren_col_9 = Inr s9" and
    set: "setitem d ''Type_Beneficiaire''
            (np_select [map (\<lambda>c. num_gt c 0) tp, map2 (\<lambda>a b. a \<noteq> Str [] \<or> b \<noteq> Str []) s8 s9]
               [Str Precarite_energetique, Str ''Personne Morale'']
               (replicate (nrows d) (Str Menage_Classique))) = Inr d'"
    by (auto simp: select_beneficiaire_def bind_err_eq_Inr Let_def)
  let ?tb = "np_select [map (\<lambda>c. num_gt c 0) tp, map2 (\<lambda>a b. a \<noteq> Str [] \<or> b \<noteq> Str []) s8 s9]
               [Str Precarite_energetique, Str ''Personne Morale'']
               (replicate (nrows d) (Str Menage_Classique))"
  have len: "length tp = nrows d" "length s8 = nrows d" "length s9 = nrows d"
    using assms(2) tp s8 s9 by (auto dest: wf_getitem_length)
  have "?tb ! i = beneficiaire_of (tp ! i) (s8 ! i) (s9 ! i)" if "i < nrows d" for i
    using that len by (subst np_select2_nth) (auto simp: beneficiaire_of_def)
  moreover have "getitem d' Total_precarite = Inr tp" "getitem d' siren_col_8 = Inr s8"
    "getitem d' siren_col_9 = Inr s9" "getitem d' ''Type_Beneficiaire'' = Inr ?tb"
    using tp s8 s9 by (simp_all add: getitem_setitem[OF set] beneficiaire_names)
  ultimately show ?thesis
    using s8 s9 by blast
qed

section \<open>Stages of the enricher\<close>

lemma process_prepare: "process L t T = bind_err (prepare L T) (metrics L t)"
  by (simp add: process_def prepare_def bind_err_def split: sum.splits)

lemma writes_pre_sections:
  "writes pre_cols (parse_dates L date_cols)"
  "writes pre_cols (code_postal L)"
  "writes pre_cols (periode L)"
  "writes pre_cols (mandataire L)"
  "writes pre_cols (primary_numerics L numeric_cols)"
  apply (rule writes_mono[OF writes_parse_dates]; auto simp: pre_cols_def)
  apply (rule writes_mono[OF writes_code_postal]; auto simp: pre_cols_def)
  apply (rule writes_mono[OF writes_periode]; auto simp: pre_cols_def)
  apply (rule writes_mono[OF writes_mandataire]; auto simp: pre_cols_def)
  apply (rule writes_mono[OF writes_primary_numerics]; auto simp: pre_cols_def)
  done

lemma writes_pre:
  "writes pre_cols (run_steps [parse_dates L date_cols, code_postal L, periode L, mandataire L,
        primary_numerics L numeric_cols])"
  by (rule writes_run_steps) (simp add: writes_pre_sections)

lemma prepare_stages:
  assumes "prepare L T = Inr D" and "wf_frame (strip_columns L T)"
  obtains d5 d6 d7 where
    "run_steps [parse_dates L date_cols, code_postal L, periode L, mandataire L,
        primary_numerics L numeric_cols] (strip_columns L T) = Inr d5"
    "equipment L d5 = Inr d6" "type_beneficiaire L d6 = Inr d7"
    "run_steps [statut, annee_depot] d7 = Inr D"
    "wf_frame d5" "wf_frame d6" "wf_frame d7" "wf_frame D"
    "nrows d5 = nrows T" "nrows d6 = nrows T" "nrows d7 = nrows T" "nrows D = nrows T"
proof -
  let ?pre = "[parse_dates L date_cols, code_postal L, periode L, mandataire L,
        primary_numerics L numeric_cols]"
  have "prepare L T = run_steps (?pre @ [equipment L, type_beneficiaire L] @ [statut, annee_depot])
          (strip_columns L T)"
    by (simp add: prepare_def)
  with assms(1) obtain d5 d7 where d5: "run_steps ?pre (strip_columns L T) = Inr d5"
    and d7: "run_steps [equipment L, type_beneficiaire L] d5 = Inr d7"
    and D: "run_steps [statut, annee_depot] d7 = Inr D"
    unfolding run_steps_append by (auto simp: bind_err_eq_Inr)
  from d7 obtain d6 where d6: "equipment L d5 = Inr d6" and d7': "type_beneficiaire L d6 = Inr d7"
    by (auto simp: bind_err_eq_Inr)
  have wpost: "writes {''Statut'', ''Annee_Depot''} (run_steps [statut, annee_depot])"
    by (rule writes_run_steps)
       (simp add: writes_mono[OF writes_statut] writes_mono[OF writes_annee_depot])
  have w5: "wf_frame d5" and n5: "nrows d5 = nrows T"
    using writes_wf[OF writes_pre d5 assms(2)] writes_nrows[OF writes_pre d5]
    by (simp_all add: strip_columns_def)
  have w6: "wf_frame d6" and n6: "nrows d6 = nrows T"
    using writes_wf[OF writes_equipment d6 w5] writes_nrows[OF writes_equipment d6] n5 by simp_all
  have w7: "wf_frame d7" and n7: "nrows d7 = nrows T"
    using writes_wf[OF writes_type_beneficiaire d7' w6]
      writes_nrows[OF writes_type_beneficiaire d7'] n6 by simp_all
  have wD: "wf_frame D" and nD: "nrows D = nrows T"
    using writes_wf[OF wpost D w7] writes_nrows[OF wpost D] n7 by simp_all
  show thesis
    using that[OF d5 d6 d7' D w5 w6 w7 wD n5 n6 n7 nD] .
qed

section \<open>The beneficiary columns of the enriched table\<close>

lemma post_names:
  "c \<in> {Total_precarite, siren_col_8, siren_col_9, ''Type_Beneficiaire''} \<Longrightarrow>
   c \<notin> {''Statut'', ''Annee_Depot''} \<and> c \<notin> metric_cols"
  by (auto simp: Total_precarite_def siren_col_8_def siren_col_9_def metric_cols_def)

lemma type_beneficiaire_stages:
  assumes "type_beneficiaire L d = Inr d'"
  obtains e2 e4 where
    "run_steps [ensure_col siren_col_8, ensure_col siren_col_9] d = Inr e2"
    "run_steps [assign siren_col_8 siren_col_8
          (replace_val ''nan'' [] \<circ> str_map (str_strip L) \<circ> astype_str L),
        assign siren_col_9 siren_col_9
          (replace_val ''nan'' [] \<circ> str_map (str_strip L) \<circ> astype_str L)] e2 = Inr e4"
    "select_beneficiaire e4 = Inr d'"
  using assms by (auto simp: type_beneficiaire_def bind_err_eq_Inr)

lemma beneficiaire_after_enrich:
  assumes "load_and_process_data L (Workbook T) taux = Inr E"
      and "wf_frame (strip_columns L T)"
  obtains d6 e4 d7 where
    "type_beneficiaire L d6 = Inr d7" "select_beneficiaire e4 = Inr d7" "wf_frame e4"
    "nrows e4 = nrows T"
    "\<And>c. c \<in> {Total_precarite, siren_col_8, siren_col_9, ''Type_Beneficiaire''} \<Longrightarrow>
          getitem E c = getitem d7 c"
proof -
  from assms(1) obtain D where D: "prepare L T = Inr D" and E: "metrics L taux D = Inr E"
    by (auto simp: load_and_process_data_def process_prepare bind_err_eq_Inr)
  from prepare_stages[OF D assms(2)] obtain d5 d6 d7 where
    d6: "equipment L d5 = Inr d6" and d7: "type_beneficiaire L d6 = Inr d7" and
    post: "run_steps [statut, annee_depot] d7 = Inr D" and w6: "wf_frame d6" and
    n6: "nrows d6 = nrows T"
    by blast
  from type_beneficiaire_stages[OF d7] obtain e2 e4 where
    e2: "run_steps [ensure_col siren_col_8, ensure_col siren_col_9] d6 = Inr e2" and
    e4: "run_steps [assign siren_col_8 siren_col_8
          (replace_val ''nan'' [] \<circ> str_map (str_strip L) \<circ> astype_str L),
        assign siren_col_9 siren_col_9
          (replace_val ''nan'' [] \<circ> str_map (str_strip L) \<circ> astype_str L)] e2 = Inr e4" and
    sel: "select_beneficiaire e4 = Inr d7"
    by blast
  have we2: "writes beneficiaire_cols (run_steps [ensure_col siren_col_8, ensure_col siren_col_9])"
    by (rule writes_run_steps) (simp add: writes_ensure_col beneficiaire_cols_def)
  have we4: "writes beneficiaire_cols (run_steps [assign siren_col_8 siren_col_8
          (replace_val ''nan'' [] \<circ> str_map (str_strip L) \<circ> astype_str L),
        assign siren_col_9 siren_col_9
          (replace_val ''nan'' [] \<circ> str_map (str_strip L) \<circ> astype_str L)])"
    by (rule writes_run_steps) (simp add: writes_assign beneficiaire_cols_def)
  have wf4: "wf_frame e4"
    using writes_wf[OF we4 e4 writes_wf[OF we2 e2 w6]] .
  have n4: "nrows e4 = nrows T"
    using writes_nrows[OF we4 e4] writes_nrows[OF we2 e2] n6 by simp
  have wpost: "writes {''Statut'', ''Annee_Depot''} (run_steps [statut, annee_depot])"
    by (rule writes_run_steps)
       (simp add: writes_mono[OF writes_statut] writes_mono[OF writes_annee_depot])
  have same: "getitem E c = getitem d7 c"
    if "c \<in> {Total_precarite, siren_col_8, siren_col_9, ''Type_Beneficiaire''}" for c
    using writes_frame[OF writes_metrics E, of c] writes_frame[OF wpost post, of c]
      post_names[OF that] by simp
  show thesis
    using that[OF d7 sel wf4 n4 same] .
qed

section \<open>The identifier columns of the enriched table\<close>

lemma assign_getitem:
  assumes "assign c src f d = Inr d'"
  shows "getitem d' c' = (if c' = c then map_sum id (map f) (getitem d src) else getitem d c')"
  using assms by (auto simp: assign_def bind_err_eq_Inr getitem_setitem)

lemma ensure_col_getitem:
  assumes "ensure_col c d = Inr d'"
  shows "getitem d' c' =
     (if c' = c \<and> \<not> has_col d c then Inr (replicate (nrows d) (Str [])) else getitem d c')"
  using assms
  by (auto simp: ensure_col_def setscalar_def getitem_setitem split: if_splits)

lemma ensure_col_nrows: "ensure_col c d = Inr d' \<Longrightarrow> nrows d' = nrows d"
  by (auto simp: ensure_col_def setscalar_def nrows_setitem split: if_splits)

lemma identifier_column_cong:
  "getitem d' c = getitem d c \<Longrightarrow> nrows d' = nrows d \<Longrightarrow>
   identifier_column d' c = identifier_column d c"
  by (cases "getitem d c") (simp_all add: identifier_column_def)

lemma length_identifier_column:
  "wf_frame d \<Longrightarrow> length (identifier_column d c) = nrows d"
  by (cases "getitem d c") (auto simp: identifier_column_def dest: wf_getitem_length)

lemma ensure_col_filled:
  assumes "ensure_col c d = Inr d'"
  shows "getitem d' c = Inr (identifier_column d c)"
proof (cases "has_col d c")
  case True
  then obtain v where "getitem d c = Inr v" using getitem_has_col by blast
  then show ?thesis
    using ensure_col_getitem[OF assms, of c] True by (simp add: identifier_column_def)
next
  case False
  then show ?thesis
    using ensure_col_getitem[OF assms, of c] getitem_no_col[OF False]
    by (simp add: identifier_column_def)
qed

lemma ensure_col_other:
  assumes "ensure_col c d = Inr d'" and "c' \<noteq> c"
  shows "getitem d' c' = getitem d c'" "identifier_column d' c' = identifier_column d c'"
proof -
  show g: "getitem d' c' = getitem d c'"
    using ensure_col_getitem[OF assms(1), of c'] assms(2) by simp
  show "identifier_column d' c' = identifier_column d c'"
    using identifier_column_cong[OF g ensure_col_nrows[OF assms(1)]] .
qed

lemma ensure_assign_getitem:
  assumes e2: "run_steps [ensure_col a, ensure_col b] d = Inr e2"
      and e4: "run_steps [assign a a f, assign b b f] e2 = Inr e4"
      and ab: "a \<noteq> b" and c: "c = a \<or> c = b"
  shows "getitem e4 c = Inr (map f (identifier_column d c))"
proof -
  from e2 obtain a1 where a1: "ensure_col a d = Inr a1" and a2: "ensure_col b a1 = Inr e2"
    by (auto simp: bind_err_eq_Inr)
  from e4 obtain a3 where a3: "assign a a f e2 = Inr a3" and a4: "assign b b f a3 = Inr e4"
    by (auto simp: bind_err_eq_Inr)
  have ga: "getitem e2 a = Inr (identifier_column d a)"
    using ensure_col_other(1)[OF a2 ab] ensure_col_filled[OF a1] by simp
  have gb: "getitem e2 b = Inr (identifier_column d b)"
    using ensure_col_filled[OF a2] ensure_col_other(2)[OF a1 ab[symmetric]] by simp
  have "getitem e4 a = Inr (map f (identifier_column d a))"
    using assign_getitem[OF a4, of a] assign_getitem[OF a3, of a] ga ab by simp
  moreover have "getitem e4 b = Inr (map f (identifier_column d b))"
    using assign_getitem[OF a4, of b] assign_getitem[OF a3, of b] gb ab by simp
  ultimately show ?thesis using c by blast
qed

lemma identifier_names:
  "c = siren_col_8 \<or> c = siren_col_9 \<Longrightarrow> c \<notin> pre_cols \<and> c \<notin> equipment_cols"
  by (auto simp: siren_col_8_def siren_col_9_def pre_cols_def equipment_cols_def date_cols_def
      numeric_cols_def Date_de_debut_def Periode_def Total_precarite_def)

lemma identifiers_after_enrich:
  assumes "load_and_process_data L (Workbook T) taux = Inr E"
      and "wf_frame (strip_columns L T)"
      and c: "c = siren_col_8 \<or> c = siren_col_9"
  shows "getitem E c =
     Inr (map (\<lambda>x. replace_val ''nan'' [] (trimmed_text L x))
           (identifier_column (strip_columns L T) c))"
proof -
  let ?S = "strip_columns L T"
  let ?norm = "replace_val ''nan'' [] \<circ> str_map (str_strip L) \<circ> astype_str L"
  from assms(1) obtain D where D: "prepare L T = Inr D" and E: "metrics L taux D = Inr E"
    by (auto simp: load_and_process_data_def process_prepare bind_err_eq_Inr)
  from prepare_stages[OF D assms(2)] obtain d5 d6 d7 where
    d5: "run_steps [parse_dates L date_cols, code_postal L, periode L, mandataire L,
        primary_numerics L numeric_cols] ?S = Inr d5" and
    d6: "equipment L d5 = Inr d6" and d7: "type_beneficiaire L d6 = Inr d7" and
    post: "run_steps [statut, annee_depot] d7 = Inr D"
    by blast
  have names: "c \<notin> pre_cols" "c \<notin> equipment_cols"
    using identifier_names[OF c] by simp_all
  have g5: "getitem d5 c = getitem ?S c"
    using writes_frame[OF writes_pre d5 names(1)] .
  have g6: "getitem d6 c = getitem d5 c"
    using writes_frame[OF writes_equipment d6 names(2)] .
  have n6: "nrows d6 = nrows ?S"
    using writes_nrows[OF writes_pre d5] writes_nrows[OF writes_equipment d6] by simp
  have raw: "identifier_column d6 c = identifier_column ?S c"
    by (rule identifier_column_cong) (simp_all add: g5 g6 n6)
  from type_beneficiaire_stages[OF d7] obtain e2 e4 where
    e2: "run_steps [ensure_col siren_col_8, ensure_col siren_col_9] d6 = Inr e2" and
    e4: "run_steps [assign siren_col_8 siren_col_8 ?norm,
        assign siren_col_9 siren_col_9 ?norm] e2 = Inr e4" and
    sel: "select_beneficiaire e4 = Inr d7"
    by blast
  have norm: "getitem e4 c = Inr (map ?norm (identifier_column d6 c))"
    using ensure_assign_getitem[OF e2 e4 beneficiaire_names(4) c] .
  have cTB: "c \<notin> {''Type_Beneficiaire''}"
    using c beneficiaire_names(2,3) by auto
  have wsel: "writes {''Type_Beneficiaire''} select_beneficiaire"
    by (rule writes_select_beneficiaire) simp
  have g7: "getitem d7 c = getitem e4 c"
    using writes_frame[OF wsel sel cTB] .
  have wpost: "writes {''Statut'', ''Annee_Depot''} (run_steps [statut, annee_depot])"
    by (rule writes_run_steps)
       (simp add: writes_mono[OF writes_statut] writes_mono[OF writes_annee_depot])
  have "c \<in> {Total_precarite, siren_col_8, siren_col_9, ''Type_Beneficiaire''}"
    using c by auto
  from post_names[OF this] have gE: "getitem E c = getitem d7 c"
    using writes_frame[OF writes_metrics E, of c] writes_frame[OF wpost post, of c] by simp
  have "?norm = (\<lambda>x. replace_val ''nan'' [] (trimmed_text L x))"
    by (simp add: fun_eq_iff trimmed_text_def)
  with gE g7 norm raw show ?thesis by simp
qed


section \<open>The equipment key of a code\<close>

lemma split_on_takeWhile:
  "split_on sep s =
     takeWhile (\<lambda>c. c \<noteq> sep) s #
       (case dropWhile (\<lambda>c. c \<noteq> sep) s of [] \<Rightarrow> [] | d # r \<Rightarrow> split_on sep r)"
  by (induction s) (auto split: list.splits)

lemma split_on_segments:
  "dropWhile (\<lambda>c. c \<noteq> sep) s = [] \<Longrightarrow> split_on sep s = [takeWhile (\<lambda>c. c \<noteq> sep) s]"
  "dropWhile (\<lambda>c. c \<noteq> sep) s = d # r \<Longrightarrow>
     \<exists>rest. split_on sep s =
       takeWhile (\<lambda>c. c \<noteq> sep) s # takeWhile (\<lambda>c. c \<noteq> sep) r # rest"
proof -
  assume n: "dropWhile (\<lambda>c. c \<noteq> sep) s = []"
  show "split_on sep s = [takeWhile (\<lambda>c. c \<noteq> sep) s]"
    using split_on_takeWhile[of sep s] by (simp only: n list.case)
next
  assume a: "dropWhile (\<lambda>c. c \<noteq> sep) s = d # r"
  have "split_on sep s = takeWhile (\<lambda>c. c \<noteq> sep) s # split_on sep r"
    using split_on_takeWhile[of sep s] by (simp only: a list.case)
  moreover have "\<exists>rest. split_on sep r = takeWhile (\<lambda>c. c \<noteq> sep) r # rest"
    using split_on_takeWhile[of sep r] by blast
  ultimately show "\<exists>rest. split_on sep s =
       takeWhile (\<lambda>c. c \<noteq> sep) s # takeWhile (\<lambda>c. c \<noteq> sep) r # rest"
    by auto
qed

lemma split_get_0: "split_get 0 (Str s) = Str (code_prefix s)"
proof -
  obtain rest where "split_on CHR ''-'' s = takeWhile (\<lambda>c. c \<noteq> CHR ''-'') s # rest"
    using split_on_takeWhile[of "CHR ''-''" s] by blast
  then show ?thesis
    by (simp add: split_get_def code_prefix_def)
qed

lemma split_get_1:
  "split_get (Suc 0) (Str s) = (case second_segment s of None \<Rightarrow> NaN | Some g \<Rightarrow> Str g)"
proof (cases "dropWhile (\<lambda>c. c \<noteq> CHR ''-'') s")
  case Nil
  from split_on_segments(1)[OF Nil] show ?thesis
    by (simp add: split_get_def second_segment_def Nil)
next
  case (Cons d r)
  from split_on_segments(2)[OF Cons] obtain rest where
    "split_on CHR ''-'' s =
       takeWhile (\<lambda>c. c \<noteq> CHR ''-'') s # takeWhile (\<lambda>c. c \<noteq> CHR ''-'') r # rest"
    by blast
  then show ?thesis
    by (simp add: split_get_def second_segment_def Cons)
qed

lemma key_cell_spec: "key_cell (Str s) = Str (spec_equipment_key s)"
  by (cases "second_segment s")
     (simp_all add: key_cell_def split_get_0 split_get_1 spec_equipment_key_def fillna_def
        isna_def isin_def str_add_def)

lemma normalised_cell:
  "(str_map (str_upper L) \<circ> str_map (str_strip L) \<circ> astype_str L) c = Str (normalised_code L c)"
  by (cases c) (simp_all add: str_map_def astype_str_def normalised_code_def text_of_def)

lemma facteur_key_column:
  "np_where (map (isin [''TH'', ''EN'', ''EQ'']) (map (fillna (Str []) \<circ> split_get 1) code))
      (map2 str_add (map (\<lambda>p. str_add p (Str ''-'')) (map (split_get 0) code))
         (map (fillna (Str []) \<circ> split_get 1) code))
      (map (split_get 0) code)
   = map key_cell code"
  by (induction code) (simp_all add: np_where_def key_cell_def)

lemma equipment_names:
  "''CodeEquip_prefix'' \<noteq> ''CodeEquip_sub''"
  "''FacteurKey'' \<notin> {''Facteur_Conversion'', ''Duree_Vie'', ''Secteur'', ''Sous_Categorie''}"
  "''FacteurKey'' \<notin> pre_cols" "''FacteurKey'' \<notin> beneficiaire_cols"
  "''FacteurKey'' \<notin> {''Statut'', ''Annee_Depot''}" "''FacteurKey'' \<notin> metric_cols"
  "Code_equipement \<notin> pre_cols"
  by (simp_all add: pre_cols_def beneficiaire_cols_def metric_cols_def date_cols_def
      numeric_cols_def Date_de_debut_def Periode_def Total_precarite_def Code_equipement_def
      siren_col_8_def siren_col_9_def)

lemma equipment_facteur_key:
  assumes d': "equipment L d = Inr d'" and v: "getitem d Code_equipement = Inr v"
  shows "getitem d' ''FacteurKey'' = Inr (map (\<lambda>x. Str (spec_equipment_key (normalised_code L x))) v)"
proof -
  let ?code = "map (str_map (str_upper L) \<circ> str_map (str_strip L) \<circ> astype_str L) v"
  have h: "has_col d Code_equipement"
    using v by (auto simp: has_col_getitem)
  from d' have "bind_err (dict_item FACTEUR_CUMAC_TO_KWH ''DEFAULT'') (\<lambda>facteur_default.
        bind_err (dict_item DUREE_VIE_EQUIPEMENT ''DEFAULT'') (\<lambda>duree_default.
          run_steps
            [\<lambda>d. setitem d ''CodeEquip_prefix'' (map (split_get 0) ?code),
             \<lambda>d. setitem d ''CodeEquip_sub'' (map (fillna (Str []) \<circ> split_get 1) ?code),
             facteur_key,
             assign ''Facteur_Conversion'' ''FacteurKey''
               (fillna facteur_default \<circ> map_dict FACTEUR_CUMAC_TO_KWH),
             assign ''Duree_Vie'' ''FacteurKey''
               (fillna duree_default \<circ> map_dict DUREE_VIE_EQUIPEMENT),
             assign ''Secteur'' ''CodeEquip_prefix'' (fillna (Str ''Autre'') \<circ> map_dict SECTEUR),
             assign ''Sous_Categorie'' ''CodeEquip_sub'' (replace_val [] ''N/A'')] d)) = Inr d'"
    unfolding equipment_def Let_def by (simp only: h v if_True bind_err_Inr)
  then obtain fd dd x1 x2 x3 where
    x1: "setitem d ''CodeEquip_prefix'' (map (split_get 0) ?code) = Inr x1" and
    x2: "setitem x1 ''CodeEquip_sub'' (map (fillna (Str []) \<circ> split_get 1) ?code) = Inr x2" and
    x3: "facteur_key x2 = Inr x3" and
    r: "run_steps
            [assign ''Facteur_Conversion'' ''FacteurKey''
               (fillna fd \<circ> map_dict FACTEUR_CUMAC_TO_KWH),
             assign ''Duree_Vie'' ''FacteurKey''
               (fillna dd \<circ> map_dict DUREE_VIE_EQUIPEMENT),
             assign ''Secteur'' ''CodeEquip_prefix'' (fillna (Str ''Autre'') \<circ> map_dict SECTEUR),
             assign ''Sous_Categorie'' ''CodeEquip_sub'' (replace_val [] ''N/A'')] x3 = Inr d'"
    unfolding run_steps.simps(2) bind_err_eq_Inr by blast
  have w: "writes {''Facteur_Conversion'', ''Duree_Vie'', ''Secteur'', ''Sous_Categorie''}
     (run_steps
            [assign ''Facteur_Conversion'' ''FacteurKey''
               (fillna fd \<circ> map_dict FACTEUR_CUMAC_TO_KWH),
             assign ''Duree_Vie'' ''FacteurKey''
               (fillna dd \<circ> map_dict DUREE_VIE_EQUIPEMENT),
             assign ''Secteur'' ''CodeEquip_prefix'' (fillna (Str ''Autre'') \<circ> map_dict SECTEUR),
             assign ''Sous_Categorie'' ''CodeEquip_sub'' (replace_val [] ''N/A'')])"
    by (rule writes_run_steps) (simp add: writes_assign)
  have g: "getitem d' ''FacteurKey'' = getitem x3 ''FacteurKey''"
    using writes_frame[OF w r equipment_names(2)] .
  have pre: "getitem x2 ''CodeEquip_prefix'' = Inr (map (split_get 0) ?code)"
    using getitem_setitem[OF x2, of "''CodeEquip_prefix''"]
      getitem_setitem[OF x1, of "''CodeEquip_prefix''"] by simp
  have sub: "getitem x2 ''CodeEquip_sub'' = Inr (map (fillna (Str []) \<circ> split_get 1) ?code)"
    using getitem_setitem[OF x2, of "''CodeEquip_sub''"] by simp
  from x3 have "setitem x2 ''FacteurKey'' (map key_cell ?code) = Inr x3"
    unfolding facteur_key_def by (simp only: pre sub bind_err_Inr facteur_key_column)
  then have "getitem x3 ''FacteurKey'' = Inr (map key_cell ?code)"
    using getitem_setitem[of x2 "''FacteurKey''" _ x3 "''FacteurKey''"] by simp
  moreover have "map key_cell ?code = map (\<lambda>x. Str (spec_equipment_key (normalised_code L x))) v"
  proof -
    have "key_cell (str_map (str_upper L) (str_map (str_strip L) (astype_str L x)))
        = Str (spec_equipment_key (normalised_code L x))" for x
      using normalised_cell[of L x] key_cell_spec[of "normalised_code L x"] by simp
    then show ?thesis by (simp add: comp_def)
  qed
  ultimately show ?thesis using g by simp
qed

lemma facteur_key_after_enrich:
  assumes "load_and_process_data L (Workbook T) taux = Inr E"
      and "wf_frame (strip_columns L T)"
      and v: "getitem (strip_columns L T) Code_equipement = Inr v"
  shows "getitem E ''FacteurKey'' =
           Inr (map (\<lambda>x. Str (spec_equipment_key (normalised_code L x))) v)"
    and "length v = nrows T"
proof -
  let ?S = "strip_columns L T"
  from assms(1) obtain D where D: "prepare L T = Inr D" and E: "metrics L taux D = Inr E"
    by (auto simp: load_and_process_data_def process_prepare bind_err_eq_Inr)
  from prepare_stages[OF D assms(2)] obtain d5 d6 d7 where
    d5: "run_steps [parse_dates L date_cols, code_postal L, periode L, mandataire L,
        primary_numerics L numeric_cols] ?S = Inr d5" and
    d6: "equipment L d5 = Inr d6" and d7: "type_beneficiaire L d6 = Inr d7" and
    post: "run_steps [statut, annee_depot] d7 = Inr D"
    by blast
  have v5: "getitem d5 Code_equipement = Inr v"
    using writes_frame[OF writes_pre d5 equipment_names(7)] v by simp
  have wpost: "writes {''Statut'', ''Annee_Depot''} (run_steps [statut, annee_depot])"
    by (rule writes_run_steps)
       (simp add: writes_mono[OF writes_statut] writes_mono[OF writes_annee_depot])
  have "getitem E ''FacteurKey'' = getitem d6 ''FacteurKey''"
    using writes_frame[OF writes_metrics E equipment_names(6)]
      writes_frame[OF wpost post equipment_names(5)]
      writes_frame[OF writes_type_beneficiaire d7 equipment_names(4)] by simp
  then show "getitem E ''FacteurKey'' =
           Inr (map (\<lambda>x. Str (spec_equipment_key (normalised_code L x))) v)"
    using equipment_facteur_key[OF d6 v5] by simp
  show "length v = nrows T"
    using wf_getitem_length[OF assms(2) v] by simp
qed

section \<open>The fields that depend on the efficiency rate\<close>

lemma cumac_cell: "\<exists>k. (fillna (Num 0) \<circ> to_numeric L) x = Num k"
  by (cases x; cases "parse_numeric L x") (simp_all add: fillna_def isna_def to_numeric_def)

lemma num_gt_Num: "num_gt v 0 \<longleftrightarrow> (\<exists>f>0. v = Num f)"
  by (cases v) (simp_all add: num_gt_def)

lemma facteur_values: "list_all (\<lambda>p. num_gt (snd p) 0) FACTEUR_CUMAC_TO_KWH"
  by (simp add: FACTEUR_CUMAC_TO_KWH_def num_gt_def)

lemma facteur_cell:
  assumes "dict_item FACTEUR_CUMAC_TO_KWH ''DEFAULT'' = Inr fd"
  shows "\<exists>f>0. fd = Num f" "\<exists>f>0. (fillna fd \<circ> map_dict FACTEUR_CUMAC_TO_KWH) x = Num f"
proof -
  have vals: "\<exists>f>0. v = Num f" if "map_of FACTEUR_CUMAC_TO_KWH s = Some v" for s v
    using map_of_SomeD[OF that] facteur_values by (auto simp: list_all_iff num_gt_Num)
  from assms show d: "\<exists>f>0. fd = Num f"
    by (auto simp: dict_item_def split: option.splits dest: vals)
  show "\<exists>f>0. (fillna fd \<circ> map_dict FACTEUR_CUMAC_TO_KWH) x = Num f"
  proof (cases x)
    case (Str s)
    then show ?thesis
      using d by (cases "map_of FACTEUR_CUMAC_TO_KWH s")
        (auto simp: fillna_def isna_def map_dict_def dest: vals)
  qed (use d in \<open>simp_all add: fillna_def isna_def map_dict_def\<close>)
qed

lemma equipment_facteur_conversion:
  assumes d': "equipment L d = Inr d'"
  shows "\<exists>fc. getitem d' ''Facteur_Conversion'' = Inr fc \<and> list_all (\<lambda>x. num_gt x 0) fc"
proof (cases "has_col d Code_equipement")
  case True
  then obtain v where v: "getitem d Code_equipement = Inr v"
    using getitem_has_col by blast
  let ?code = "map (str_map (str_upper L) \<circ> str_map (str_strip L) \<circ> astype_str L) v"
  from d' have "bind_err (dict_item FACTEUR_CUMAC_TO_KWH ''DEFAULT'') (\<lambda>facteur_default.
        bind_err (dict_item DUREE_VIE_EQUIPEMENT ''DEFAULT'') (\<lambda>duree_default.
          run_steps
            [\<lambda>d. setitem d ''CodeEquip_prefix'' (map (split_get 0) ?code),
             \<lambda>d. setitem d ''CodeEquip_sub'' (map (fillna (Str []) \<circ> split_get 1) ?code),
             facteur_key,
             assign ''Facteur_Conversion'' ''FacteurKey''
               (fillna facteur_default \<circ> map_dict FACTEUR_CUMAC_TO_KWH),
             assign ''Duree_Vie'' ''FacteurKey''
               (fillna duree_default \<circ> map_dict DUREE_VIE_EQUIPEMENT),
             assign ''Secteur'' ''CodeEquip_prefix'' (fillna (Str ''Autre'') \<circ> map_dict SECTEUR),
             assign ''Sous_Categorie'' ''CodeEquip_sub'' (replace_val [] ''N/A'')] d)) = Inr d'"
    unfolding equipment_def Let_def by (simp only: True v if_True bind_err_Inr)
  then obtain fd dd x3 x4 where
    fd: "dict_item FACTEUR_CUMAC_TO_KWH ''DEFAULT'' = Inr fd" and
    x4: "assign ''Facteur_Conversion'' ''FacteurKey''
               (fillna fd \<circ> map_dict FACTEUR_CUMAC_TO_KWH) x3 = Inr x4" and
    r: "run_steps
            [assign ''Duree_Vie'' ''FacteurKey''
               (fillna dd \<circ> map_dict DUREE_VIE_EQUIPEMENT),
             assign ''Secteur'' ''CodeEquip_prefix'' (fillna (Str ''Autre'') \<circ> map_dict SECTEUR),
             assign ''Sous_Categorie'' ''CodeEquip_sub'' (replace_val [] ''N/A'')] x4 = Inr d'"
    unfolding run_steps.simps(2) bind_err_eq_Inr by blast
  have w: "writes {''Duree_Vie'', ''Secteur'', ''Sous_Categorie''}
     (run_steps
            [assign ''Duree_Vie'' ''FacteurKey''
               (fillna dd \<circ> map_dict DUREE_VIE_EQUIPEMENT),
             assign ''Secteur'' ''CodeEquip_prefix'' (fillna (Str ''Autre'') \<circ> map_dict SECTEUR),
             assign ''Sous_Categorie'' ''CodeEquip_sub'' (replace_val [] ''N/A'')])"
    by (rule writes_run_steps) (simp add: writes_assign)
  have g: "getitem d' ''Facteur_Conversion'' = getitem x4 ''Facteur_Conversion''"
    by (rule writes_frame[OF w r]) simp
  from x4 obtain key where
    "getitem x4 ''Facteur_Conversion'' = Inr (map (fillna fd \<circ> map_dict FACTEUR_CUMAC_TO_KWH) key)"
    using assign_getitem[OF x4, of "''Facteur_Conversion''"]
    by (auto simp: assign_def bind_err_eq_Inr)
  moreover have "list_all (\<lambda>x. num_gt x 0) (map (fillna fd \<circ> map_dict FACTEUR_CUMAC_TO_KWH) key)"
    using facteur_cell(2)[OF fd] by (simp add: list_all_iff num_gt_Num del: o_apply)
  ultimately show ?thesis using g by simp
next
  case False
  from d' have "bind_err (dict_item FACTEUR_CUMAC_TO_KWH ''DEFAULT'') (\<lambda>facteur_default.
        bind_err (dict_item DUREE_VIE_EQUIPEMENT ''DEFAULT'') (\<lambda>duree_default.
          run_steps
            [\<lambda>d. setscalar d ''Facteur_Conversion'' facteur_default,
             \<lambda>d. setscalar d ''Duree_Vie'' duree_default,
             \<lambda>d. setscalar d ''Secteur'' (Str ''Autre''),
             \<lambda>d. setscalar d ''Sous_Categorie'' (Str ''N/A''),
             \<lambda>d. setscalar d ''CodeEquip_prefix'' (Str ''Autre'')] d)) = Inr d'"
    unfolding equipment_def by (simp only: False if_False)
  then obtain fd dd x1 where
    fd: "dict_item FACTEUR_CUMAC_TO_KWH ''DEFAULT'' = Inr fd" and
    x1: "setscalar d ''Facteur_Conversion'' fd = Inr x1" and
    r: "run_steps
            [\<lambda>d. setscalar d ''Duree_Vie'' dd,
             \<lambda>d. setscalar d ''Secteur'' (Str ''Autre''),
             \<lambda>d. setscalar d ''Sous_Categorie'' (Str ''N/A''),
             \<lambda>d. setscalar d ''CodeEquip_prefix'' (Str ''Autre'')] x1 = Inr d'"
    unfolding run_steps.simps(2) bind_err_eq_Inr by blast
  have w: "writes {''Duree_Vie'', ''Secteur'', ''Sous_Categorie'', ''CodeEquip_prefix''}
     (run_steps
            [\<lambda>d. setscalar d ''Duree_Vie'' dd,
             \<lambda>d. setscalar d ''Secteur'' (Str ''Autre''),
             \<lambda>d. setscalar d ''Sous_Categorie'' (Str ''N/A''),
             \<lambda>d. setscalar d ''CodeEquip_prefix'' (Str ''Autre'')])"
    by (rule writes_run_steps) (simp add: writes_setscalar)
  have g: "getitem d' ''Facteur_Conversion'' = getitem x1 ''Facteur_Conversion''"
    by (rule writes_frame[OF w r]) simp
  have "getitem x1 ''Facteur_Conversion'' = Inr (replicate (nrows d) fd)"
    using x1 getitem_setitem[of d "''Facteur_Conversion''" _ x1 "''Facteur_Conversion''"]
    by (simp add: setscalar_def)
  moreover have "list_all (\<lambda>x. num_gt x 0) (replicate (nrows d) fd)"
    using facteur_cell(1)[OF fd] by (auto simp: list_all_iff num_gt_Num)
  ultimately show ?thesis using g by simp
qed

lemma assign2_getitem:
  assumes "assign2 c a b f d = Inr d'"
  shows "\<exists>v w. getitem d a = Inr v \<and> getitem d b = Inr w \<and>
           (\<forall>c'. getitem d' c' = (if c' = c then Inr (map2 f v w) else getitem d c'))"
  using assms by (auto simp: assign2_def bind_err_eq_Inr getitem_setitem)

lemma assign_getitem_src:
  assumes "assign c src f d = Inr d'"
  shows "\<exists>v. getitem d src = Inr v \<and>
           (\<forall>c'. getitem d' c' = (if c' = c then Inr (map f v) else getitem d c'))"
  using assms by (auto simp: assign_def bind_err_eq_Inr getitem_setitem)

lemma kWh_cumac_getitem:
  assumes "kWh_cumac L d = Inr d'"
  shows "\<exists>tot. getitem d ''Total'' = Inr tot \<and>
           (\<forall>c'. getitem d' c' = (if c' = ''kWh_cumac''
              then Inr (map (fillna (Num 0) \<circ> to_numeric L) tot) else getitem d c'))"
  using assms
  by (cases "map_of (cols d) ''Total''")
     (auto simp: kWh_cumac_def getitem_def[of d "''Total''"] getitem_setitem)

lemma metrics_fields:
  assumes "metrics L t D = Inr E"
  shows "\<exists>tot fc kr. getitem D ''Total'' = Inr tot \<and> getitem D ''Facteur_Conversion'' = Inr fc \<and>
     kr = map2 (\<lambda>a b. num_mul (num_mul a b) (Num t)) (map (fillna (Num 0) \<circ> to_numeric L) tot) fc \<and>
     getitem E ''kWh_cumac'' = Inr (map (fillna (Num 0) \<circ> to_numeric L) tot) \<and>
     getitem E ''Facteur_Conversion'' = Inr fc \<and>
     getitem E ''kWh_reels_annuels'' = Inr kr \<and>
     getitem E ''CO2_evite_tonnes_an''
       = Inr (map (\<lambda>c. num_div (num_mul c (Num EMISSION_CO2_KWH)) 1000) kr) \<and>
     getitem E ''Nb_foyers_equivalents'' = Inr (map (\<lambda>c. num_div c CONSO_MOYENNE_FOYER_KWH) kr) \<and>
     getitem E ''Economies_euros_an'' = Inr (map (\<lambda>c. num_mul c (Num COUT_CHAUFFAGE_KWH)) kr)"
proof -
  from assms obtain m1 m2 m3 m4 m5 m6 m7 where
    m1: "kWh_cumac L D = Inr m1" and
    m2: "assign ''GWh_cumac'' ''kWh_cumac'' (\<lambda>c. num_div c 1000000) m1 = Inr m2" and
    m3: "assign2 ''kWh_reels_annuels'' ''kWh_cumac'' ''Facteur_Conversion''
          (\<lambda>a b. num_mul (num_mul a b) (Num t)) m2 = Inr m3" and
    m4: "assign ''GWh_reels_annuels'' ''kWh_reels_annuels'' (\<lambda>c. num_div c 1000000) m3 = Inr m4" and
    m5: "assign ''CO2_evite_tonnes_an'' ''kWh_reels_annuels''
          (\<lambda>c. num_div (num_mul c (Num EMISSION_CO2_KWH)) 1000) m4 = Inr m5" and
    m6: "assign ''Nb_foyers_equivalents'' ''kWh_reels_annuels''
          (\<lambda>c. num_div c CONSO_MOYENNE_FOYER_KWH) m5 = Inr m6" and
    m7: "assign ''Economies_euros_an'' ''kWh_reels_annuels''
          (\<lambda>c. num_mul c (Num COUT_CHAUFFAGE_KWH)) m6 = Inr m7" and
    m8: "assign ''Prime_versee'' ''Tableau Recapitulatif champ 23'' (\<lambda>c. c) m7 = Inr E"
    unfolding metrics_def run_steps.simps bind_err_eq_Inr by blast
  from kWh_cumac_getitem[OF m1] obtain tot where
    tot: "getitem D ''Total'' = Inr tot" and
    g1: "\<And>c'. getitem m1 c' = (if c' = ''kWh_cumac''
              then Inr (map (fillna (Num 0) \<circ> to_numeric L) tot) else getitem D c')"
    by blast
  from assign_getitem_src[OF m2] have
    g2: "\<And>c'. c' \<noteq> ''GWh_cumac'' \<Longrightarrow> getitem m2 c' = getitem m1 c'"
    by auto
  from assign2_getitem[OF m3] obtain v w where
    v: "getitem m2 ''kWh_cumac'' = Inr v" and w: "getitem m2 ''Facteur_Conversion'' = Inr w" and
    g3: "\<And>c'. getitem m3 c' = (if c' = ''kWh_reels_annuels''
            then Inr (map2 (\<lambda>a b. num_mul (num_mul a b) (Num t)) v w) else getitem m2 c')"
    by blast
  from assign_getitem_src[OF m4] have
    g4: "\<And>c'. c' \<noteq> ''GWh_reels_annuels'' \<Longrightarrow> getitem m4 c' = getitem m3 c'"
    by auto
  from assign_getitem_src[OF m5] obtain v5 where
    v5: "getitem m4 ''kWh_reels_annuels'' = Inr v5" and
    g5: "\<And>c'. getitem m5 c' = (if c' = ''CO2_evite_tonnes_an''
            then Inr (map (\<lambda>c. num_div (num_mul c (Num EMISSION_CO2_KWH)) 1000) v5)
            else getitem m4 c')"
    by blast
  from assign_getitem_src[OF m6] obtain v6 where
    v6: "getitem m5 ''kWh_reels_annuels'' = Inr v6" and
    g6: "\<And>c'. getitem m6 c' = (if c' = ''Nb_foyers_equivalents''
            then Inr (map (\<lambda>c. num_div c CONSO_MOYENNE_FOYER_KWH) v6) else getitem m5 c')"
    by blast
  from assign_getitem_src[OF m7] obtain v7 where
    v7: "getitem m6 ''kWh_reels_annuels'' = Inr v7" and
    g7: "\<And>c'. getitem m7 c' = (if c' = ''Economies_euros_an''
            then Inr (map (\<lambda>c. num_mul c (Num COUT_CHAUFFAGE_KWH)) v7) else getitem m6 c')"
    by blast
  from assign_getitem_src[OF m8] have
    g8: "\<And>c'. c' \<noteq> ''Prime_versee'' \<Longrightarrow> getitem E c' = getitem m7 c'"
    by auto
  let ?K = "map (fillna (Num 0) \<circ> to_numeric L) tot"
  have vK: "v = ?K"
    using v g2[of "''kWh_cumac''"] g1[of "''kWh_cumac''"] by simp
  have wD: "getitem D ''Facteur_Conversion'' = Inr w"
    using w g2[of "''Facteur_Conversion''"] g1[of "''Facteur_Conversion''"] by simp
  let ?kr = "map2 (\<lambda>a b. num_mul (num_mul a b) (Num t)) ?K w"
  have k3: "getitem m3 ''kWh_reels_annuels'' = Inr ?kr"
    using g3[of "''kWh_reels_annuels''"] vK by simp
  have v5k: "v5 = ?kr"
    using v5 g4[of "''kWh_reels_annuels''"] k3 by simp
  have v6k: "v6 = ?kr"
    using v6 g5[of "''kWh_reels_annuels''"] v5 v5k by simp
  have v7k: "v7 = ?kr"
    using v7 g6[of "''kWh_reels_annuels''"] v6 v6k by simp
  have e1: "getitem E ''kWh_cumac'' = Inr ?K"
    using g8[of "''kWh_cumac''"] g7[of "''kWh_cumac''"] g6[of "''kWh_cumac''"]
      g5[of "''kWh_cumac''"] g4[of "''kWh_cumac''"] g3[of "''kWh_cumac''"] v vK by simp
  have e2: "getitem E ''Facteur_Conversion'' = Inr w"
    using g8[of "''Facteur_Conversion''"] g7[of "''Facteur_Conversion''"]
      g6[of "''Facteur_Conversion''"] g5[of "''Facteur_Conversion''"]
      g4[of "''Facteur_Conversion''"] g3[of "''Facteur_Conversion''"] w by simp
  have e3: "getitem E ''kWh_reels_annuels'' = Inr ?kr"
    using g8[of "''kWh_reels_annuels''"] g7[of "''kWh_reels_annuels''"] v7 v7k by simp
  have e4: "getitem E ''CO2_evite_tonnes_an''
       = Inr (map (\<lambda>c. num_div (num_mul c (Num EMISSION_CO2_KWH)) 1000) ?kr)"
    using g8[of "''CO2_evite_tonnes_an''"] g7[of "''CO2_evite_tonnes_an''"]
      g6[of "''CO2_evite_tonnes_an''"] g5[of "''CO2_evite_tonnes_an''"] v5k by simp
  have e5: "getitem E ''Nb_foyers_equivalents''
       = Inr (map (\<lambda>c. num_div c CONSO_MOYENNE_FOYER_KWH) ?kr)"
    using g8[of "''Nb_foyers_equivalents''"] g7[of "''Nb_foyers_equivalents''"]
      g6[of "''Nb_foyers_equivalents''"] v6k by simp
  have e6: "getitem E ''Economies_euros_an''
       = Inr (map (\<lambda>c. num_mul c (Num COUT_CHAUFFAGE_KWH)) ?kr)"
    using g8[of "''Economies_euros_an''"] g7[of "''Economies_euros_an''"] v7k by simp
  from tot wD e1 e2 e3 e4 e5 e6 show ?thesis by blast
qed

lemma facteur_names:
  "''Facteur_Conversion'' \<notin> beneficiaire_cols"
  "''Facteur_Conversion'' \<notin> {''Statut'', ''Annee_Depot''}"
  by (simp_all add: beneficiaire_cols_def siren_col_8_def siren_col_9_def)

lemma prepared_facteur_conversion:
  assumes D: "prepare L T = Inr D" and wf: "wf_frame (strip_columns L T)"
  shows "\<exists>fc. getitem D ''Facteur_Conversion'' = Inr fc \<and> length fc = nrows T \<and>
           list_all (\<lambda>x. num_gt x 0) fc"
proof -
  from prepare_stages[OF D wf] obtain d5 d6 d7 where
    d6: "equipment L d5 = Inr d6" and d7: "type_beneficiaire L d6 = Inr d7" and
    post: "run_steps [statut, annee_depot] d7 = Inr D" and wD: "wf_frame D" and
    nD: "nrows D = nrows T"
    by blast
  have wpost: "writes {''Statut'', ''Annee_Depot''} (run_steps [statut, annee_depot])"
    by (rule writes_run_steps)
       (simp add: writes_mono[OF writes_statut] writes_mono[OF writes_annee_depot])
  have g: "getitem D ''Facteur_Conversion'' = getitem d6 ''Facteur_Conversion''"
    using writes_frame[OF wpost post facteur_names(2)]
      writes_frame[OF writes_type_beneficiaire d7 facteur_names(1)] by simp
  from equipment_facteur_conversion[OF d6] obtain fc where
    fc: "getitem d6 ''Facteur_Conversion'' = Inr fc" "list_all (\<lambda>x. num_gt x 0) fc"
    by blast
  have "length fc = nrows T"
    using wf_getitem_length[OF wD] g fc(1) nD by simp
  with g fc show ?thesis by simp
qed

lemma rate_fields_row:
  assumes D: "prepare L T = Inr D" and E: "metrics L t D = Inr E"
      and wf: "wf_frame (strip_columns L T)" and i: "i < nrows T"
  shows "\<exists>k f. (fillna (Num 0) \<circ> to_numeric L) (cell_at D ''Total'' i) = Num k \<and>
           cell_at D ''Facteur_Conversion'' i = Num f \<and> 0 < f \<and>
           cell_at E ''kWh_cumac'' i = Num k \<and> cell_at E ''Facteur_Conversion'' i = Num f \<and>
           rate_fields E i =
             [Num (k * f * t), Num (k * f * t * EMISSION_CO2_KWH / 1000),
              Num (k * f * t / CONSO_MOYENNE_FOYER_KWH), Num (k * f * t * COUT_CHAUFFAGE_KWH)]"
proof -
  from prepare_stages[OF D wf] have wD: "wf_frame D" and nD: "nrows D = nrows T"
    by blast+
  from metrics_fields[OF E] obtain tot fc kr where
    tot: "getitem D ''Total'' = Inr tot" and fc: "getitem D ''Facteur_Conversion'' = Inr fc" and
    krd: "kr = map2 (\<lambda>a b. num_mul (num_mul a b) (Num t))
            (map (fillna (Num 0) \<circ> to_numeric L) tot) fc" and
    e1: "getitem E ''kWh_cumac'' = Inr (map (fillna (Num 0) \<circ> to_numeric L) tot)" and
    e2: "getitem E ''Facteur_Conversion'' = Inr fc" and
    e3: "getitem E ''kWh_reels_annuels'' = Inr kr" and
    e4: "getitem E ''CO2_evite_tonnes_an''
       = Inr (map (\<lambda>c. num_div (num_mul c (Num EMISSION_CO2_KWH)) 1000) kr)" and
    e5: "getitem E ''Nb_foyers_equivalents'' = Inr (map (\<lambda>c. num_div c CONSO_MOYENNE_FOYER_KWH) kr)" and
    e6: "getitem E ''Economies_euros_an'' = Inr (map (\<lambda>c. num_mul c (Num COUT_CHAUFFAGE_KWH)) kr)"
    by blast
  have lt: "length tot = nrows T"
    using wf_getitem_length[OF wD tot] nD by simp
  from prepared_facteur_conversion[OF D wf] fc have
    lf: "length fc = nrows T" and pos: "list_all (\<lambda>x. num_gt x 0) fc"
    by auto
  from pos i lf obtain f where f: "fc ! i = Num f" "0 < f"
    by (auto simp: list_all_length num_gt_Num)
  obtain k where k: "(fillna (Num 0) \<circ> to_numeric L) (tot ! i) = Num k"
    using cumac_cell by blast
  have kr: "kr ! i = Num (k * f * t)"
    using i lt lf k f(1) by (simp add: krd num_mul_def)
  have lkr: "i < length kr"
    using i lt lf by (simp add: krd)
  have "rate_fields E i =
             [Num (k * f * t), Num (k * f * t * EMISSION_CO2_KWH / 1000),
              Num (k * f * t / CONSO_MOYENNE_FOYER_KWH), Num (k * f * t * COUT_CHAUFFAGE_KWH)]"
    unfolding rate_fields_def cell_at_def
    using lkr kr by (simp add: e3 e4 e5 e6 num_mul_def num_div_def)
  moreover have "cell_at D ''Total'' i = tot ! i" "cell_at D ''Facteur_Conversion'' i = Num f"
    "cell_at E ''kWh_cumac'' i = Num k" "cell_at E ''Facteur_Conversion'' i = Num f"
    using tot fc e1 e2 f(1) k i lt by (simp_all add: cell_at_def)
  ultimately show ?thesis
    using k f(2) by auto
qed

lemma rate_order:
  fixes k f t1 t2 :: real
  assumes "0 < f" and "t1 < t2"
  shows "k * f * t1 < k * f * t2 \<longleftrightarrow> 0 < k"
proof -
  define d where "d = f * (t2 - t1)"
  have d: "0 < d"
    using assms by (simp add: d_def)
  have "k * f * t2 - k * f * t1 = k * d"
    by (simp add: d_def algebra_simps)
  moreover have "0 < k * d \<longleftrightarrow> 0 < k"
    using d zero_less_mult_iff[of k d] by auto
  ultimately have "0 < k * f * t2 - k * f * t1 \<longleftrightarrow> 0 < k"
    by simp
  then show ?thesis by simp
qed

lemma rate_fields_order:
  fixes a b :: real
  shows "list_all2 num_lt
     [Num a, Num (a * EMISSION_CO2_KWH / 1000), Num (a / CONSO_MOYENNE_FOYER_KWH),
      Num (a * COUT_CHAUFFAGE_KWH)]
     [Num b, Num (b * EMISSION_CO2_KWH / 1000), Num (b / CONSO_MOYENNE_FOYER_KWH),
      Num (b * COUT_CHAUFFAGE_KWH)] \<longleftrightarrow> a < b"
  by (auto simp: num_lt_def EMISSION_CO2_KWH_def CONSO_MOYENNE_FOYER_KWH_def
      COUT_CHAUFFAGE_KWH_def divide_strict_right_mono)

section \<open>Row selection and the active operations\<close>

lemma is_active_window:
  "is_active y (Num Y) (Num L) \<longleftrightarrow> Y \<le> of_int y \<and> of_int y < Y + L"
  by (auto simp: is_active_def num_le_def num_gt_def num_add_def)

lemma is_active_int:
  "is_active y (Num (of_int Y)) (Num (of_int L)) \<longleftrightarrow> Y \<le> y \<and> y < Y + L"
  unfolding is_active_window by (metis of_int_add of_int_le_iff of_int_less_iff)

lemma map_of_map_values:
  "map_of (map (\<lambda>p. (fst p, f (snd p))) al) c = map_option f (map_of al c)"
  by (induction al) auto

lemma getitem_mask_rows:
  "getitem (mask_rows m df) c = map_sum id (\<lambda>v. map snd (filter fst (zip m v))) (getitem df c)"
  unfolding getitem_def mask_rows_def
  by (simp add: map_of_map_values[of "\<lambda>v. map snd (filter fst (zip m v))"] split: option.splits)

lemma filter_zip_nth:
  "length m = length v \<Longrightarrow>
   map snd (filter fst (zip m v)) = map (\<lambda>i. v ! i) (filter (\<lambda>i. m ! i) [0..<length v])"
proof (induction m v rule: list_induct2)
  case Nil
  then show ?case by simp
next
  case (Cons b m x v)
  have "filter (\<lambda>i. (b # m) ! i) [0..<Suc (length v)]
      = (if b then [0] else []) @ map Suc (filter (\<lambda>i. m ! i) [0..<length v])"
    by (simp add: upt_conv_Cons map_Suc_upt[symmetric] filter_map comp_def del: upt_Suc)
  with Cons show ?case by (simp add: comp_def)
qed


lemma active_ops_mask:
  assumes "getitem df ''Annee_Depot'' = Inr a" and "getitem df ''Duree_Vie'' = Inr d"
  shows "active_ops df y = Inr (mask_rows (map2 (is_active y) a d) df)"
  using assms by (simp add: active_ops_def)

lemma getitem_mask_rows_nth:
  assumes "getitem df c = Inr v" and "length m = length v"
  shows "getitem (mask_rows m df) c = Inr (map (\<lambda>i. v ! i) (filter (\<lambda>i. m ! i) [0..<length v]))"
  using assms by (simp add: getitem_mask_rows filter_zip_nth)

lemma is_active_in_window: "is_active y a d = in_window y a d"
  by (cases a; cases d)
     (auto simp: is_active_def in_window_def num_le_def num_gt_def num_add_def)

lemma filter_mask_indices:
  "length (filter (\<lambda>b. b) m) = length (filter (\<lambda>i. m ! i) [0..<length m])"
proof (induction m rule: rev_induct)
  case Nil
  then show ?case by simp
next
  case (snoc x xs)
  have "filter (\<lambda>i. (xs @ [x]) ! i) [0..<length xs] = filter (\<lambda>i. xs ! i) [0..<length xs]"
    by (rule filter_cong) (simp_all add: nth_append)
  with snoc show ?case by simp
qed

lemma mask_window_rows:
  assumes "length a = n" and "length d = n"
  shows "filter (\<lambda>i. map2 (is_active y) a d ! i) [0..<n] = window_rows y a d"
  unfolding window_rows_def assms(1)
  by (rule filter_cong) (simp_all add: assms is_active_in_window)

lemma active_ops_window:
  assumes wf: "wf_frame df"
      and a: "getitem df ''Annee_Depot'' = Inr a"
      and d: "getitem df ''Duree_Vie'' = Inr d"
  shows "\<exists>act. active_ops df y = Inr act \<and> nrows act = length (window_rows y a d) \<and>
           (\<forall>c v. getitem df c = Inr v \<longrightarrow>
               getitem act c = Inr (map (\<lambda>i. v ! i) (window_rows y a d)))"
proof -
  let ?m = "map2 (is_active y) a d"
  have len: "length a = nrows df" "length d = nrows df"
    using wf a d by (auto dest: wf_getitem_length)
  then have lm: "length ?m = nrows df"
    by simp
  have rows: "filter (\<lambda>i. ?m ! i) [0..<nrows df] = window_rows y a d"
    using mask_window_rows[OF len] .
  have "nrows (mask_rows ?m df) = length (window_rows y a d)"
    using filter_mask_indices[of ?m] rows lm by (simp add: mask_rows_def)
  moreover have "getitem (mask_rows ?m df) c = Inr (map (\<lambda>i. v ! i) (window_rows y a d))"
    if "getitem df c = Inr v" for c v
  proof -
    have "length ?m = length v"
      using wf_getitem_length[OF wf that] lm by simp
    from getitem_mask_rows_nth[OF that this] show ?thesis
      using rows wf_getitem_length[OF wf that] by simp
  qed
  ultimately show ?thesis
    using active_ops_mask[OF a d, of y] by blast
qed

lemma year_loop_breakdowns:
  assumes "\<And>y. breakdown df y = Inr (f y)"
  shows "year_loop df ys = Inr (concat (map f ys))"
  by (induction ys) (simp_all add: assms)

lemma keyed_keys: "(s, x) \<in> set (keyed ks vs) \<Longrightarrow> Str s \<in> set ks"
  by (auto simp: keyed_def List.map_filter_def split: cell.splits dest: set_zip_leftD)

lemma groupby_sum_keys: "p \<in> set (groupby_sum ks vs) \<Longrightarrow> Str (fst p) \<in> set ks"
  by (auto simp: groupby_sum_def Let_def dest: keyed_keys)

lemma distinct_groupby_sum: "distinct (map fst (groupby_sum ks vs))"
  by (simp add: groupby_sum_def Let_def comp_def)

lemma type_op_range: "Str s \<in> set (map (type_op tops) v) \<Longrightarrow> s \<in> set tops \<union> {''Autres''}"
  by (auto simp: type_op_def isin_def split: if_splits)

lemma set_mask_subset: "set (map snd (filter fst (zip m v))) \<subseteq> set v"
  by (auto dest: set_zip_rightD)

lemma breakdown_labels:
  assumes "breakdown df_proj y = Inr es" and "getitem df_proj Type_Operation = Inr col"
  shows "\<forall>e \<in> set es. annee e = y \<and> Str (type_operation e) \<in> set col"
proof -
  from assms(1) obtain act ks vs where
    act: "active_ops df_proj y = Inr act" and ks: "getitem act Type_Operation = Inr ks" and
    es: "es = map (\<lambda>p. \<lparr>annee = y, type_operation = fst p, economies_GWh_an = snd p\<rparr>)
                (groupby_sum ks vs)"
    by (auto simp: breakdown_def bind_err_eq_Inr)
  from act obtain m where "act = mask_rows m df_proj"
    by (auto simp: active_ops_def bind_err_eq_Inr)
  with ks assms(2) have "ks = map snd (filter fst (zip m col))"
    by (simp add: getitem_mask_rows)
  then have "set ks \<subseteq> set col"
    using set_mask_subset by simp
  then show ?thesis
    using groupby_sum_keys[of _ ks vs] by (auto simp: es)
qed

lemma year_loop_labels:
  assumes "year_loop df_proj ys = Inr out" and "getitem df_proj Type_Operation = Inr col"
  shows "\<forall>e \<in> set out. Str (type_operation e) \<in> set col"
  using assms(1)
proof (induction ys arbitrary: out)
  case Nil
  then show ?case by simp
next
  case (Cons y ys)
  from Cons.prems obtain es rest where
    es: "breakdown df_proj y = Inr es" and rest: "year_loop df_proj ys = Inr rest" and
    out: "out = es @ rest"
    by (auto simp: bind_err_eq_Inr)
  show ?case
    using breakdown_labels[OF es assms(2)] Cons.IH[OF rest] by (auto simp: out)
qed

lemma length_top_ops: "top_ops df = Inr tops \<Longrightarrow> length tops \<le> 5"
  by (auto simp: top_ops_def nlargest_def bind_err_eq_Inr)

lemma projection_labels:
  assumes "projection df cy h = Inr out" and "out \<noteq> []"
  shows "\<exists>tops. top_ops df = Inr tops \<and>
           (\<forall>e \<in> set out. type_operation e \<in> set tops \<union> {''Autres''})"
proof -
  from assms obtain start tops df_proj where
    tops: "top_ops df = Inr tops" and
    proj: "assign Type_Operation ''FacteurKey'' (type_op tops) df = Inr df_proj" and
    loop: "year_loop df_proj [start..cy + h] = Inr out"
    by (auto simp: projection_def bind_err_eq_Inr Let_def split: if_splits)
  from assign_getitem_src[OF proj] obtain v where
    col: "getitem df_proj Type_Operation = Inr (map (type_op tops) v)"
    by auto
  from year_loop_labels[OF loop col] type_op_range[of _ tops v] tops show ?thesis
    by blast
qed

lemma nlargest_rank:
  assumes d: "distinct (map fst s)"
      and p: "p \<in> set s" "fst p \<notin> fst ` set (nlargest n s)"
      and q: "q \<in> set s" "fst q \<in> fst ` set (nlargest n s)"
  shows "snd p \<le> snd q" "length (nlargest n s) = n"
proof -
  let ?s = "sort_key (\<lambda>p. - snd p) s"
  have split: "?s = take n ?s @ drop n ?s"
    by simp
  have "p \<in> set ?s"
    using p(1) by simp
  then have "p \<in> set (take n ?s) \<or> p \<in> set (drop n ?s)"
    by (metis Un_iff append_take_drop_id set_append)
  with p(2) have pd: "p \<in> set (drop n ?s)"
    by (auto simp: nlargest_def)
  from q(2) obtain q' where q': "q' \<in> set (take n ?s)" "fst q' = fst q"
    by (auto simp: nlargest_def)
  have "q' \<in> set s"
    using q'(1) by (auto dest: in_set_takeD)
  moreover have "inj_on fst (set s)"
    using d by (simp add: distinct_map)
  ultimately have "q' = q"
    using q(1) q'(2) by (auto dest: inj_onD)
  with q'(1) have qt: "q \<in> set (take n ?s)"
    by simp
  have "sorted (map (\<lambda>p. - snd p) (take n ?s) @ map (\<lambda>p. - snd p) (drop n ?s))"
    by (metis append_take_drop_id map_append sorted_sort_key)
  then have "- snd q \<le> - snd p"
    using qt pd by (auto simp: sorted_append)
  then show "snd p \<le> snd q"
    by simp
  have "drop n ?s \<noteq> []"
    using pd by auto
  then show "length (nlargest n s) = n"
    by (simp add: nlargest_def)
qed

lemma distinct_nlargest: "distinct (map fst s) \<Longrightarrow> distinct (map fst (nlargest n s))"
proof -
  assume "distinct (map fst s)"
  then have "distinct (map fst (sort_key (\<lambda>p. - snd p) s))"
    by (simp add: distinct_map)
  then show ?thesis
    unfolding nlargest_def take_map[symmetric] by (rule distinct_take)
qed

lemma breakdown_window:
  assumes wf: "wf_frame df"
      and a: "getitem df ''Annee_Depot'' = Inr a"
      and d: "getitem df ''Duree_Vie'' = Inr d"
      and ks: "getitem df Type_Operation = Inr ks"
      and vs: "getitem df ''GWh_reels_annuels'' = Inr vs"
  shows "breakdown df y =
           Inr (map (\<lambda>p. \<lparr>annee = y, type_operation = fst p, economies_GWh_an = snd p\<rparr>)
                  (groupby_sum (map (\<lambda>i. ks ! i) (window_rows y a d))
                               (map (\<lambda>i. vs ! i) (window_rows y a d))))"
proof -
  from active_ops_window[OF wf a d, of y] obtain act where
    act: "active_ops df y = Inr act" and
    sel: "\<And>c v. getitem df c = Inr v \<Longrightarrow>
               getitem act c = Inr (map (\<lambda>i. v ! i) (window_rows y a d))"
    by blast
  show ?thesis
    by (simp add: breakdown_def act sel[OF ks] sel[OF vs])
qed

lemma window_rows_bound: "i \<in> set (window_rows y a d) \<Longrightarrow> i < length a"
  by (simp add: window_rows_def)

lemma projection_names:
  "Type_Operation \<noteq> ''Annee_Depot''" "Type_Operation \<noteq> ''Duree_Vie''"
  "Type_Operation \<noteq> ''GWh_reels_annuels''" "Type_Operation \<noteq> ''FacteurKey''"
  by (simp_all add: Type_Operation_def)

lemma projection_series:
  assumes out: "projection df cy h = Inr out" and ne: "out \<noteq> []" and wf: "wf_frame df"
  shows "\<exists>start a d ks vs tops.
           start_year df = Inr start \<and> top_ops df = Inr tops \<and>
           getitem df ''Annee_Depot'' = Inr a \<and> getitem df ''Duree_Vie'' = Inr d \<and>
           getitem df ''FacteurKey'' = Inr ks \<and> getitem df ''GWh_reels_annuels'' = Inr vs \<and>
           out = concat (map (\<lambda>y.
                   map (\<lambda>p. \<lparr>annee = y, type_operation = fst p, economies_GWh_an = snd p\<rparr>)
                     (groupby_sum (map (\<lambda>i. type_op tops (ks ! i)) (window_rows y a d))
                                  (map (\<lambda>i. vs ! i) (window_rows y a d))))
                 [start..cy + h])"
proof -
  from out ne obtain start tops df_proj where
    some: "has_projection_rows df = Inr True" and
    start: "start_year df = Inr start" and
    tops: "top_ops df = Inr tops" and
    proj: "assign Type_Operation ''FacteurKey'' (type_op tops) df = Inr df_proj" and
    loop: "year_loop df_proj [start..cy + h] = Inr out"
    by (auto simp: projection_def bind_err_eq_Inr Let_def split: if_splits)
  from some obtain a d where
    a: "getitem df ''Annee_Depot'' = Inr a" and d: "getitem df ''Duree_Vie'' = Inr d"
    by (auto simp: has_projection_rows_def bind_err_eq_Inr)
  from tops obtain ks vs where
    ks: "getitem df ''FacteurKey'' = Inr ks" and vs: "getitem df ''GWh_reels_annuels'' = Inr vs"
    by (auto simp: top_ops_def bind_err_eq_Inr)
  from assign_getitem_src[OF proj] ks have
    g: "\<And>c. getitem df_proj c =
          (if c = Type_Operation then Inr (map (type_op tops) ks) else getitem df c)"
    by auto
  have wfp: "wf_frame df_proj"
    using writes_wf[OF writes_assign proj wf, of "{Type_Operation}"] by simp
  have len: "length a = nrows df" "length ks = nrows df"
    using wf a ks by (auto dest: wf_getitem_length)
  have pa: "getitem df_proj ''Annee_Depot'' = Inr a"
    and pd: "getitem df_proj ''Duree_Vie'' = Inr d"
    and pv: "getitem df_proj ''GWh_reels_annuels'' = Inr vs"
    and pk: "getitem df_proj Type_Operation = Inr (map (type_op tops) ks)"
    using g a d vs projection_names by (simp_all del: map_map)
  have lab: "map (\<lambda>i. map (type_op tops) ks ! i) (window_rows y a d)
      = map (\<lambda>i. type_op tops (ks ! i)) (window_rows y a d)" for y
    using window_rows_bound[of _ y a d] len by (intro map_cong) auto
  have "year_loop df_proj ys = Inr (concat (map (\<lambda>y.
                   map (\<lambda>p. \<lparr>annee = y, type_operation = fst p, economies_GWh_an = snd p\<rparr>)
                     (groupby_sum (map (\<lambda>i. type_op tops (ks ! i)) (window_rows y a d))
                                  (map (\<lambda>i. vs ! i) (window_rows y a d)))) ys))" for ys
    by (rule year_loop_breakdowns) (simp add: breakdown_window[OF wfp pa pd pk pv] lab)
  with loop start tops a d ks vs show ?thesis
    by auto
qed

lemma nlargest_full:
  assumes "p \<in> set s" and "fst p \<notin> fst ` set (nlargest n s)"
  shows "length (nlargest n s) = n"
proof -
  let ?s = "sort_key (\<lambda>p. - snd p) s"
  have "p \<in> set (take n ?s) \<or> p \<in> set (drop n ?s)"
    using assms(1) by (metis Un_iff append_take_drop_id set_append set_sort)
  with assms(2) have "drop n ?s \<noteq> []"
    by (auto simp: nlargest_def)
  then show ?thesis
    by (simp add: nlargest_def)
qed

lemma top_ops_rank:
  assumes tops: "top_ops df = Inr tops"
      and ks: "getitem df ''FacteurKey'' = Inr ks"
      and vs: "getitem df ''GWh_reels_annuels'' = Inr vs"
  shows "length tops \<le> 5" "distinct tops" "set tops \<subseteq> fst ` set (groupby_sum ks vs)"
    "\<forall>p \<in> set (groupby_sum ks vs). fst p \<notin> set tops \<longrightarrow>
        length tops = 5 \<and>
        (\<forall>q \<in> set (groupby_sum ks vs). fst q \<in> set tops \<longrightarrow> snd p \<le> snd q)"
proof -
  let ?s = "groupby_sum ks vs"
  have t: "tops = map fst (nlargest 5 ?s)"
    using tops ks vs by (simp add: top_ops_def)
  show "length tops \<le> 5"
    by (simp add: t nlargest_def)
  show "distinct tops"
    unfolding t by (rule distinct_nlargest[OF distinct_groupby_sum])
  have "set (nlargest 5 ?s) \<subseteq> set ?s"
    using set_take_subset[of 5 "sort_key (\<lambda>p. - snd p) ?s"] by (simp add: nlargest_def)
  then show "set tops \<subseteq> fst ` set ?s"
    unfolding t by auto
  show "\<forall>p \<in> set ?s. fst p \<notin> set tops \<longrightarrow>
        length tops = 5 \<and> (\<forall>q \<in> set ?s. fst q \<in> set tops \<longrightarrow> snd p \<le> snd q)"
    using nlargest_rank(1)[OF distinct_groupby_sum, of _ ks vs 5] nlargest_full[of _ ?s 5]
    by (auto simp: t)
qed

lemma length_labels:
  assumes "\<forall>e \<in> set out. type_operation e \<in> set tops \<union> {''Autres''}" and "length tops \<le> 5"
  shows "set (labels_of_year out y) \<subseteq> set tops \<union> {''Autres''}"
    and "length (labels_of_year out y) \<le> 6"
proof -
  show sub: "set (labels_of_year out y) \<subseteq> set tops \<union> {''Autres''}"
    using assms(1) by (auto simp: labels_of_year_def)
  have "length (labels_of_year out y) = card (set (labels_of_year out y))"
    by (simp add: labels_of_year_def length_remdups_card_conv)
  also have "\<dots> \<le> card (set tops \<union> {''Autres''})"
    by (rule card_mono[OF _ sub]) simp
  also have "\<dots> \<le> card (set tops) + 1"
    by (simp add: card_insert_if)
  also have "\<dots> \<le> 6"
    using card_length[of tops] assms(2) by simp
  finally show "length (labels_of_year out y) \<le> 6" .
qed

section \<open>Steps commute with a selection of rows\<close>

lemma mask_rows_cols:
  "cols (mask_rows m df) = map (\<lambda>p. (fst p, mask_col m (snd p))) (cols df)"
  "nrows (mask_rows m df) = length (filter (\<lambda>b. b) m)"
  by (simp_all add: mask_rows_def mask_col_def)




lemma mask_col_nth:
  "length m = length v \<Longrightarrow> mask_col m v = map (\<lambda>i. v ! i) (filter (\<lambda>i. m ! i) [0..<length m])"
  unfolding mask_col_def using filter_zip_nth[of m v] by simp

lemma length_mask_col:
  "length m = length v \<Longrightarrow> length (mask_col m v) = length (filter (\<lambda>b. b) m)"
  by (simp add: mask_col_nth filter_mask_indices)





lemma wf_mask_rows:
  assumes "wf_frame df" and "length m = nrows df"
  shows "wf_frame (mask_rows m df)"
  using assms
  by (auto simp: wf_frame_def mask_rows_cols comp_def list_all_iff length_mask_col)





































section \<open>C1: a missing date column\<close>

text \<open>
  Claim C1. For every input that can be read as a table the enricher succeeds, with
  defaults for every missing recognised column, the validation date and the deposit date
  included; it fails only when the input cannot be read. The code does not do this: lines
  202 and 203 read \<^verbatim>\<open>df['Date Validation']\<close> and \<^verbatim>\<open>df['Date depot']\<close> without the test
  of presence that line 126 makes for the same columns. On a readable sheet without the
  validation-date column the \<^verbatim>\<open>KeyError\<close> is caught by the handler of line 220 and the
  function returns no table.
\<close>

theorem C1_missing_validation_date_fails:
  "load_and_process_data ascii_lib (Workbook sheet_no_validation) (45 / 100)
     = Inl (KeyError ''Date Validation'')"
  by code_simp

section \<open>C8: the example scenario\<close>

text \<open>
  With a validation-date column in the sheet, the row of the example scenario is enriched
  as the specification says: key \<^verbatim>\<open>BAR-TH\<close>, factor \<open>1 / 12.16\<close>, real annual energy
  \<open>100000 \<times> (1 / 12.16) \<times> 0.45\<close> kWh (3700.66 to two decimals, within 0.15 of the 3700.8
  of the specification, which multiplies with the rounded factor), CO2 avoided 0.21094
  tonnes (within 0.0001 of 0.2110), lifetime 17 and deposit year 2022; and the projection
  made in 2026 with horizon 20 has entries for exactly the years 2022 to 2038.
\<close>

lemma scenario_with_validation_column:
  "(case load_and_process_data ascii_lib (Workbook sheet_scenario_validated) (45 / 100) of
      Inl e \<Rightarrow> False
    | Inr E \<Rightarrow>
        getitem E ''FacteurKey'' = Inr [Str ''BAR-TH''] \<and>
        getitem E ''Facteur_Conversion'' = Inr [Num (1 / 12.16)] \<and>
        getitem E ''kWh_reels_annuels'' = Inr [Num (100000 * (1 / 12.16) * 0.45)] \<and>
        getitem E ''CO2_evite_tonnes_an'' =
          Inr [Num (100000 * (1 / 12.16) * 0.45 * 0.057 / 1000)] \<and>
        getitem E ''Duree_Vie'' = Inr [Num 17] \<and>
        getitem E ''Annee_Depot'' = Inr [Num 2022] \<and>
        map_sum id (map annee) (projection E 2026 20) = Inr [2022..2038])"
  by code_simp

lemma scenario_figures:
  "\<bar>1 / 12.16 - 0.08224\<bar> < (0.00001::real)"
  "\<bar>100000 * (1 / 12.16) * 0.45 - 3700.8\<bar> < (0.15::real)"
  "\<bar>100000 * (1 / 12.16) * 0.45 * 0.057 / 1000 - 0.2110\<bar> < (0.0001::real)"
  by simp_all

text \<open>
  Claim C8. For the input row with amount 100000, equipment code \<^verbatim>\<open>BAR-TH-001\<close> and
  deposit date 2022-03-01, at efficiency rate 0.45, the enricher yields the key
  \<^verbatim>\<open>BAR-TH\<close>, the factor 1/12.16, about 3700.8 kWh, about 0.2110 tonnes of CO2 and the
  lifetime 17, so that the record is active from 2022 to 2038. On the sheet that holds
  exactly the three columns of that row the code yields nothing: the validation-date
  column is missing, and line 202 raises the \<^verbatim>\<open>KeyError\<close> of claim C1.
\<close>

theorem C8_scenario_row_fails:
  "load_and_process_data ascii_lib (Workbook sheet_scenario) (45 / 100)
     = Inl (KeyError ''Date Validation'')"
  by code_simp

section \<open>C9: no equipment-code column, no projection\<close>

text \<open>
  Claim C9. There is an input without the equipment-code column and with deposit years
  for which the fallback branch of the enricher sets the default factor, lifetime and
  sector but creates no \<^verbatim>\<open>FacteurKey\<close> column, so that the grouping of line 643 raises a
  \<^verbatim>\<open>KeyError\<close> instead of giving a projection. Here: two rows deposited in 2023 and 2024,
  every filter of the dashboard left at its default (all rows kept), projection made in
  2025 with horizon 20. The guard of line 635 and the first year of line 639 succeed; it
  is the grouping \<open>top_ops\<close> itself that raises, and the projection ends with that error.
\<close>

theorem C9_projection_without_equipment_code:
  "\<not> has_col sheet_no_code Code_equipement \<and>
   (case load_and_process_data ascii_lib (Workbook sheet_no_code) (45 / 100) of
      Inl e \<Rightarrow> False
    | Inr E \<Rightarrow>
        getitem E ''Annee_Depot'' = Inr [Num 2023, Num 2024] \<and>
        getitem E ''Facteur_Conversion'' = Inr [Num (1 / 8.11), Num (1 / 8.11)] \<and>
        getitem E ''Duree_Vie'' = Inr [Num 10, Num 10] \<and>
        getitem E ''Secteur'' = Inr [Str ''Autre'', Str ''Autre''] \<and>
        \<not> has_col E ''FacteurKey'' \<and>
        has_projection_rows E = Inr True \<and>
        start_year E = Inr 2023 \<and>
        top_ops E = Inl (KeyError ''FacteurKey'') \<and>
        projection E 2025 20 = Inl (KeyError ''FacteurKey''))"
  by code_simp

section \<open>C3: the lifetime window\<close>

text \<open>
  Claim C3. A record with a deposit year \<open>Y\<close> and a lifetime \<open>L\<close> is counted as active
  at the projection year \<open>y\<close> if and only if \<open>Y \<le> y < Y + L\<close>. For every year the active
  operations are the table restricted to the rows in their window (\<open>window_rows\<close>, the
  window in the words of the specification): as many rows, and in every column the cells of
  exactly those rows, in the order of the table. The breakdown of the year is the grouped
  sum over exactly those rows, and the series of the year loop is the breakdowns of its
  years, one after the other.
\<close>

theorem C3_active_window:
  assumes "wf_frame df"
      and "getitem df ''Annee_Depot'' = Inr a"
      and "getitem df ''Duree_Vie'' = Inr d"
      and "getitem df Type_Operation = Inr ks"
      and "getitem df ''GWh_reels_annuels'' = Inr vs"
  shows "(\<forall>y. \<exists>act. active_ops df y = Inr act \<and>
           nrows act = length (window_rows y a d) \<and>
           (\<forall>c v. getitem df c = Inr v \<longrightarrow>
               getitem act c = Inr (map (\<lambda>i. v ! i) (window_rows y a d))) \<and>
           breakdown df y =
             Inr (map (\<lambda>p. \<lparr>annee = y, type_operation = fst p, economies_GWh_an = snd p\<rparr>)
                    (groupby_sum (map (\<lambda>i. ks ! i) (window_rows y a d))
                                 (map (\<lambda>i. vs ! i) (window_rows y a d))))) \<and>
         (\<forall>years. year_loop df years =
             Inr (concat (map (\<lambda>y.
                    map (\<lambda>p. \<lparr>annee = y, type_operation = fst p, economies_GWh_an = snd p\<rparr>)
                      (groupby_sum (map (\<lambda>i. ks ! i) (window_rows y a d))
                                   (map (\<lambda>i. vs ! i) (window_rows y a d)))) years)))"
proof -
  have one: "\<exists>act. active_ops df y = Inr act \<and>
           nrows act = length (window_rows y a d) \<and>
           (\<forall>c v. getitem df c = Inr v \<longrightarrow>
               getitem act c = Inr (map (\<lambda>i. v ! i) (window_rows y a d))) \<and>
           breakdown df y =
             Inr (map (\<lambda>p. \<lparr>annee = y, type_operation = fst p, economies_GWh_an = snd p\<rparr>)
                    (groupby_sum (map (\<lambda>i. ks ! i) (window_rows y a d))
                                 (map (\<lambda>i. vs ! i) (window_rows y a d))))" for y
  proof -
    from active_ops_window[OF assms(1-3), of y] obtain act where
      act: "active_ops df y = Inr act" "nrows act = length (window_rows y a d)" and
      sel: "\<And>c v. getitem df c = Inr v \<Longrightarrow>
                 getitem act c = Inr (map (\<lambda>i. v ! i) (window_rows y a d))"
      by blast
    have "breakdown df y =
               Inr (map (\<lambda>p. \<lparr>annee = y, type_operation = fst p, economies_GWh_an = snd p\<rparr>)
                      (groupby_sum (map (\<lambda>i. ks ! i) (window_rows y a d))
                                   (map (\<lambda>i. vs ! i) (window_rows y a d))))"
      by (simp add: breakdown_def act(1) sel[OF assms(4)] sel[OF assms(5)])
    with act sel show ?thesis by blast
  qed
  have loop: "year_loop df years =
             Inr (concat (map (\<lambda>y.
                    map (\<lambda>p. \<lparr>annee = y, type_operation = fst p, economies_GWh_an = snd p\<rparr>)
                      (groupby_sum (map (\<lambda>i. ks ! i) (window_rows y a d))
                                   (map (\<lambda>i. vs ! i) (window_rows y a d)))) years))" for years
    by (rule year_loop_breakdowns) (use one in blast)
  from one loop show ?thesis by blast
qed

text \<open>
  In particular an operation deposited in 2020 with lifetime 5 is active exactly in the
  years 2020 to 2024: in those years it is the one active row and the one entry of the
  breakdown; from 2025 on, and before 2020, there is no active row and no entry.
\<close>

theorem C3_window_2020_5:
  "\<forall>y. window_rows y [Num 2020] [Num 5] = (if 2020 \<le> y \<and> y \<le> 2024 then [0] else []) \<and>
       (\<exists>act. active_ops frame_2020_5 y = Inr act \<and>
          nrows act = (if 2020 \<le> y \<and> y \<le> 2024 then 1 else 0) \<and>
          getitem act ''Annee_Depot'' = Inr (if 2020 \<le> y \<and> y \<le> 2024 then [Num 2020] else [])) \<and>
       breakdown frame_2020_5 y =
         Inr (if 2020 \<le> y \<and> y \<le> 2024
              then [\<lparr>annee = y, type_operation = ''BAR-EQ'', economies_GWh_an = 1 / 1000\<rparr>]
              else [])"
proof
  fix y :: int
  have wf: "wf_frame frame_2020_5"
    by code_simp
  have a: "getitem frame_2020_5 ''Annee_Depot'' = Inr [Num 2020]"
    by code_simp
  have d: "getitem frame_2020_5 ''Duree_Vie'' = Inr [Num 5]"
    by code_simp
  have ks: "getitem frame_2020_5 Type_Operation = Inr [Str ''BAR-EQ'']"
    by code_simp
  have vs: "getitem frame_2020_5 ''GWh_reels_annuels'' = Inr [Num (1 / 1000)]"
    by code_simp
  have w: "window_rows y [Num 2020] [Num 5] = (if 2020 \<le> y \<and> y \<le> 2024 then [0] else [])"
    by (auto simp: window_rows_def in_window_def)
  have g1: "groupby_sum [Str ''BAR-EQ''] [Num (1 / 1000)] = [(''BAR-EQ'', 1 / 1000)]"
    by code_simp
  have g0: "groupby_sum [] [] = []"
    by code_simp
  from C3_active_window[OF wf a d ks vs]
  have "\<exists>act. active_ops frame_2020_5 y = Inr act \<and>
           nrows act = length (window_rows y [Num 2020] [Num 5]) \<and>
           (\<forall>c v. getitem frame_2020_5 c = Inr v \<longrightarrow>
               getitem act c = Inr (map (\<lambda>i. v ! i) (window_rows y [Num 2020] [Num 5]))) \<and>
           breakdown frame_2020_5 y =
             Inr (map (\<lambda>p. \<lparr>annee = y, type_operation = fst p, economies_GWh_an = snd p\<rparr>)
                    (groupby_sum (map (\<lambda>i. [Str ''BAR-EQ''] ! i) (window_rows y [Num 2020] [Num 5]))
                                 (map (\<lambda>i. [Num (1 / 1000)] ! i) (window_rows y [Num 2020] [Num 5]))))"
    by blast
  with a
  show "window_rows y [Num 2020] [Num 5] = (if 2020 \<le> y \<and> y \<le> 2024 then [0] else []) \<and>
       (\<exists>act. active_ops frame_2020_5 y = Inr act \<and>
          nrows act = (if 2020 \<le> y \<and> y \<le> 2024 then 1 else 0) \<and>
          getitem act ''Annee_Depot'' = Inr (if 2020 \<le> y \<and> y \<le> 2024 then [Num 2020] else [])) \<and>
       breakdown frame_2020_5 y =
         Inr (if 2020 \<le> y \<and> y \<le> 2024
              then [\<lparr>annee = y, type_operation = ''BAR-EQ'', economies_GWh_an = 1 / 1000\<rparr>]
              else [])"
    unfolding w by (auto simp: g0 g1)
qed

section \<open>C7: rows are preserved\<close>




section \<open>C4: the priority of the beneficiary types\<close>

text \<open>
  Claim C4. In every row the beneficiary type follows the priority order: a precarity
  amount above zero gives the precarity household, even when a legal-entity identifier is
  present; otherwise a non-empty identifier in either field gives the legal entity;
  otherwise the standard household. The amount and the identifiers are the cells of the
  enriched table (the amount coerced to a number, the identifiers trimmed and with the
  text \<^verbatim>\<open>nan\<close> emptied); \<open>beneficiaire_of\<close> is the priority order in the words of the
  specification.
\<close>

theorem C4_beneficiary_priority:
  assumes "load_and_process_data L (Workbook T) taux = Inr E"
      and "wf_frame (strip_columns L T)"
  shows "\<exists>precarite id8 id9 tb.
           getitem E Total_precarite = Inr precarite \<and> getitem E siren_col_8 = Inr id8 \<and>
           getitem E siren_col_9 = Inr id9 \<and> getitem E ''Type_Beneficiaire'' = Inr tb \<and>
           (\<forall>i < nrows T. tb ! i = beneficiaire_of (precarite ! i) (id8 ! i) (id9 ! i))"
proof -
  from beneficiaire_after_enrich[OF assms] obtain d6 e4 d7 where
    sel: "select_beneficiaire e4 = Inr d7" and wf4: "wf_frame e4" and n4: "nrows e4 = nrows T" and
    same: "\<And>c. c \<in> {Total_precarite, siren_col_8, siren_col_9, ''Type_Beneficiaire''} \<Longrightarrow>
          getitem E c = getitem d7 c"
    by blast
  from select_beneficiaire_result[OF sel wf4] n4 same show ?thesis
    by (metis insertCI)
qed

text \<open>
  On the three case records: the first has a precarity amount and an identifier and is a
  precarity household; the second has neither; the third has an identifier only.
\<close>

theorem C4_dossiers:
  "\<exists>E tb. load_and_process_data ascii_lib (Workbook sheet_dossiers) (45 / 100) = Inr E \<and>
       getitem E ''Type_Beneficiaire'' = Inr tb \<and>
       getitem E Total_precarite = Inr [Num 50000, Num 0, Num 0] \<and>
       getitem E siren_col_8 = Inr [Str ''552100554'', Str [], Str ''732829320''] \<and>
       tb ! 0 = Str Precarite_energetique \<and> tb ! 1 = Str Menage_Classique \<and>
       tb ! 2 = Str ''Personne Morale''"
proof -
  have ev: "case load_and_process_data ascii_lib (Workbook sheet_dossiers) (45 / 100) of
          Inl e \<Rightarrow> False
        | Inr E \<Rightarrow> getitem E Total_precarite = Inr [Num 50000, Num 0, Num 0] \<and>
            getitem E siren_col_8 = Inr [Str ''552100554'', Str [], Str ''732829320''] \<and>
            getitem E siren_col_9 = Inr [Str [], Str [], Str []]"
    by code_simp
  then obtain E where E: "load_and_process_data ascii_lib (Workbook sheet_dossiers) (45 / 100) = Inr E"
    and cols: "getitem E Total_precarite = Inr [Num 50000, Num 0, Num 0]"
      "getitem E siren_col_8 = Inr [Str ''552100554'', Str [], Str ''732829320'']"
      "getitem E siren_col_9 = Inr [Str [], Str [], Str []]"
    by (auto split: sum.splits)
  have wf: "wf_frame (strip_columns ascii_lib sheet_dossiers)"
    by code_simp
  have n: "nrows sheet_dossiers = 3"
    by (simp add: sheet_dossiers_def)
  from C4_beneficiary_priority[OF E wf] cols n obtain tb where
    tb: "getitem E ''Type_Beneficiaire'' = Inr tb" and
    rows: "\<forall>i < 3. tb ! i = beneficiaire_of ([Num 50000, Num 0, Num 0] ! i)
        ([Str ''552100554'', Str [], Str ''732829320''] ! i) ([Str [], Str [], Str []] ! i)"
    by auto
  have "tb ! 0 = Str Precarite_energetique" "tb ! 1 = Str Menage_Classique"
    "tb ! 2 = Str ''Personne Morale''"
    using rows by (simp_all add: beneficiaire_of_def num_gt_def)
  with E tb cols show ?thesis by blast
qed

section \<open>C10: an identifier that reads nan counts as absent\<close>

text \<open>
  Claim C10. An identifier field whose trimmed text is exactly \<^verbatim>\<open>nan\<close> is treated as absent
  in the test for a legal entity: in a row whose precarity amount is not above zero and
  whose two identifier fields are each empty or \<^verbatim>\<open>nan\<close> once trimmed, both identifiers of the
  enriched table are the empty text and the beneficiary type is the standard household.
  The identifier fields are those of the input table after the column names are trimmed,
  an absent column counting as a column of empty texts.
\<close>

theorem C10_nan_identifier_absent:
  assumes "load_and_process_data L (Workbook T) taux = Inr E"
      and "wf_frame (strip_columns L T)"
      and "i < nrows T"
      and "getitem E Total_precarite = Inr precarite"
      and "\<not> num_gt (precarite ! i) 0"
      and "trimmed_text L (identifier_column (strip_columns L T) siren_col_8 ! i)
             \<in> {Str [], Str ''nan''}"
      and "trimmed_text L (identifier_column (strip_columns L T) siren_col_9 ! i)
             \<in> {Str [], Str ''nan''}"
  shows "\<exists>id8 id9 tb.
           getitem E siren_col_8 = Inr id8 \<and> id8 ! i = Str [] \<and>
           getitem E siren_col_9 = Inr id9 \<and> id9 ! i = Str [] \<and>
           getitem E ''Type_Beneficiaire'' = Inr tb \<and> tb ! i = Str Menage_Classique"
proof -
  let ?S = "strip_columns L T"
  let ?id = "\<lambda>c. map (\<lambda>x. replace_val ''nan'' [] (trimmed_text L x)) (identifier_column ?S c)"
  have len: "length (identifier_column ?S c) = nrows T" for c
    using length_identifier_column[OF assms(2), of c] by simp
  have id8: "getitem E siren_col_8 = Inr (?id siren_col_8)"
    by (rule identifiers_after_enrich[OF assms(1,2)]) simp
  have id9: "getitem E siren_col_9 = Inr (?id siren_col_9)"
    by (rule identifiers_after_enrich[OF assms(1,2)]) simp
  have e8: "?id siren_col_8 ! i = Str []"
    using assms(3,6) len[of siren_col_8] by (auto simp: replace_val_def)
  have e9: "?id siren_col_9 ! i = Str []"
    using assms(3,7) len[of siren_col_9] by (auto simp: replace_val_def)
  from beneficiaire_after_enrich[OF assms(1,2)] obtain d6 e4 d7 where
    sel: "select_beneficiaire e4 = Inr d7" and wf4: "wf_frame e4" and n4: "nrows e4 = nrows T" and
    same: "\<And>c. c \<in> {Total_precarite, siren_col_8, siren_col_9, ''Type_Beneficiaire''} \<Longrightarrow>
          getitem E c = getitem d7 c"
    by blast
  from select_beneficiaire_result[OF sel wf4] obtain tp s8 s9 tb where
    r: "getitem d7 Total_precarite = Inr tp" "getitem d7 siren_col_8 = Inr s8"
       "getitem d7 siren_col_9 = Inr s9" "getitem d7 ''Type_Beneficiaire'' = Inr tb"
       "\<forall>i < nrows e4. tb ! i = beneficiaire_of (tp ! i) (s8 ! i) (s9 ! i)"
    by blast
  have "tp = precarite" "s8 = ?id siren_col_8" "s9 = ?id siren_col_9"
    using r(1-3) same[of Total_precarite] same[of siren_col_8] same[of siren_col_9]
      assms(4) id8 id9 by simp_all
  then have "tb ! i = beneficiaire_of (precarite ! i) (Str []) (Str [])"
    using r(5) assms(3) n4 e8 e9 by simp
  then have "tb ! i = Str Menage_Classique"
    using assms(5) by (simp add: beneficiaire_of_def)
  moreover have "getitem E ''Type_Beneficiaire'' = Inr tb"
    using same[of "''Type_Beneficiaire''"] r(4) by simp
  ultimately show ?thesis
    using id8 id9 e8 e9 by blast
qed

text \<open>
  The second case record has the identifier \<^verbatim>\<open>' nan '\<close> in one field and an empty cell, whose
  text is \<^verbatim>\<open>nan\<close>, in the other, and no precarity amount: it is a standard household.
\<close>

theorem C10_dossier_nan:
  "\<exists>E tb. load_and_process_data ascii_lib (Workbook sheet_dossiers) (45 / 100) = Inr E \<and>
       getitem sheet_dossiers siren_col_8 = Inr [Str ''552100554'', Str '' nan '', Str ''732829320''] \<and>
       getitem sheet_dossiers siren_col_9 = Inr [NaN, NaN, NaN] \<and>
       getitem E ''Type_Beneficiaire'' = Inr tb \<and> tb ! 1 = Str Menage_Classique"
proof -
  let ?S = "strip_columns ascii_lib sheet_dossiers"
  have ev: "case load_and_process_data ascii_lib (Workbook sheet_dossiers) (45 / 100) of
          Inl e \<Rightarrow> False
        | Inr E \<Rightarrow> getitem E Total_precarite = Inr [Num 50000, Num 0, Num 0]"
    by code_simp
  then obtain E where E: "load_and_process_data ascii_lib (Workbook sheet_dossiers) (45 / 100) = Inr E"
    and tp: "getitem E Total_precarite = Inr [Num 50000, Num 0, Num 0]"
    by (auto split: sum.splits)
  have wf: "wf_frame ?S"
    by code_simp
  have n: "(1::nat) < nrows sheet_dossiers"
    by (simp add: sheet_dossiers_def)
  have p: "\<not> num_gt ([Num 50000, Num 0, Num 0] ! 1) 0"
    by (simp add: num_gt_def)
  have t8: "trimmed_text ascii_lib (identifier_column ?S siren_col_8 ! 1) \<in> {Str [], Str ''nan''}"
    by code_simp
  have t9: "trimmed_text ascii_lib (identifier_column ?S siren_col_9 ! 1) \<in> {Str [], Str ''nan''}"
    by code_simp
  have raw: "getitem sheet_dossiers siren_col_8 = Inr [Str ''552100554'', Str '' nan '', Str ''732829320'']"
    "getitem sheet_dossiers siren_col_9 = Inr [NaN, NaN, NaN]"
    by code_simp+
  from C10_nan_identifier_absent[OF E wf n tp p t8 t9] E raw show ?thesis
    by blast
qed

section \<open>C5: the equipment key of a code\<close>

text \<open>
  Claim C5, amended. The equipment key of a row is derived from the equipment code as text,
  trimmed and put in upper case (line 158), not from the code as it stands: the key is the
  part of that text before the first \<^verbatim>\<open>-\<close>, followed by \<^verbatim>\<open>-\<close> and the second segment when the
  second segment is one of \<^verbatim>\<open>TH\<close>, \<^verbatim>\<open>EN\<close>, \<^verbatim>\<open>EQ\<close>. For a code that trimming and upper-casing
  leave unchanged, the key is the one the rule gives on the code itself.
  \<open>spec_equipment_key\<close> is the rule in the words of the specification.
\<close>

theorem C5_equipment_key:
  assumes "load_and_process_data L (Workbook T) taux = Inr E"
      and "wf_frame (strip_columns L T)"
      and "getitem (strip_columns L T) Code_equipement = Inr code"
  shows "\<exists>key. getitem E ''FacteurKey'' = Inr key \<and> length key = nrows T \<and>
           (\<forall>i < nrows T. key ! i = Str (spec_equipment_key (normalised_code L (code ! i)))) \<and>
           (\<forall>i < nrows T. \<forall>s. code ! i = Str s \<and> str_upper L (str_strip L s) = s \<longrightarrow>
                key ! i = Str (spec_equipment_key s))"
proof -
  let ?key = "map (\<lambda>x. Str (spec_equipment_key (normalised_code L x))) code"
  note k = facteur_key_after_enrich[OF assms]
  have "?key ! i = Str (spec_equipment_key (normalised_code L (code ! i)))" if "i < nrows T" for i
    using that k(2) by simp
  moreover have "?key ! i = Str (spec_equipment_key s)"
    if "i < nrows T" "code ! i = Str s" "str_upper L (str_strip L s) = s" for i s
    using that k(2) by (simp add: normalised_code_def text_of_def)
  ultimately show ?thesis
    using k by (intro exI[of _ ?key]) simp
qed

text \<open>
  On the three case records the keys are \<^verbatim>\<open>BAR-TH\<close>, \<^verbatim>\<open>BAT-EN\<close> (from the code \<^verbatim>\<open>' bat-en-102'\<close>)
  and \<^verbatim>\<open>TRA-EQ\<close>.
\<close>

theorem C5_dossiers:
  "\<exists>E key. load_and_process_data ascii_lib (Workbook sheet_dossiers) (45 / 100) = Inr E \<and>
       getitem sheet_dossiers Code_equipement
         = Inr [Str ''BAR-TH-101'', Str '' bat-en-102'', Str ''TRA-EQ-103''] \<and>
       getitem E ''FacteurKey'' = Inr key \<and> length key = 3 \<and>
       key ! 0 = Str ''BAR-TH'' \<and> key ! 1 = Str ''BAT-EN'' \<and> key ! 2 = Str ''TRA-EQ''"
proof -
  let ?S = "strip_columns ascii_lib sheet_dossiers"
  let ?code = "[Str ''BAR-TH-101'', Str '' bat-en-102'', Str ''TRA-EQ-103'']"
  have ev: "case load_and_process_data ascii_lib (Workbook sheet_dossiers) (45 / 100) of
          Inl e \<Rightarrow> False | Inr E \<Rightarrow> True"
    by code_simp
  then obtain E where E: "load_and_process_data ascii_lib (Workbook sheet_dossiers) (45 / 100) = Inr E"
    by (auto split: sum.splits)
  have wf: "wf_frame ?S"
    by code_simp
  have c: "getitem ?S Code_equipement = Inr ?code"
    by code_simp
  have raw: "getitem sheet_dossiers Code_equipement = Inr ?code"
    by code_simp
  have n: "nrows sheet_dossiers = 3"
    by (simp add: sheet_dossiers_def)
  have k0: "spec_equipment_key (normalised_code ascii_lib (?code ! 0)) = ''BAR-TH''"
    by code_simp
  have k1: "spec_equipment_key (normalised_code ascii_lib (?code ! 1)) = ''BAT-EN''"
    by code_simp
  have k2: "spec_equipment_key (normalised_code ascii_lib (?code ! 2)) = ''TRA-EQ''"
    by code_simp
  from C5_equipment_key[OF E wf c] obtain key where
    key: "getitem E ''FacteurKey'' = Inr key" "length key = 3"
      "\<forall>i < 3. key ! i = Str (spec_equipment_key (normalised_code ascii_lib (?code ! i)))"
    unfolding n by blast
  have "key ! 0 = Str ''BAR-TH''" "key ! 1 = Str ''BAT-EN''" "key ! 2 = Str ''TRA-EQ''"
    using key(3) k0 k1 k2 by (simp_all del: nth_Cons_0 nth_Cons_Suc nth_Cons_numeral)
  with key(1,2) E raw show ?thesis by blast
qed

text \<open>
  Claim C5 as stated fails on a code in lower case: the part of \<^verbatim>\<open>bar-th-001\<close> before the
  first \<^verbatim>\<open>-\<close> is \<^verbatim>\<open>bar\<close> and its second segment \<^verbatim>\<open>th\<close> is none of \<^verbatim>\<open>TH\<close>, \<^verbatim>\<open>EN\<close>, \<^verbatim>\<open>EQ\<close>, so the
  rule applied to the code itself gives \<^verbatim>\<open>bar\<close>; the enriched table has the key \<^verbatim>\<open>BAR-TH\<close>.
\<close>

theorem C5_lower_case_code:
  "case load_and_process_data ascii_lib (Workbook sheet_lower_case) (45 / 100) of
     Inl e \<Rightarrow> False
   | Inr E \<Rightarrow>
       getitem sheet_lower_case Code_equipement = Inr [Str ''bar-th-001''] \<and>
       getitem E ''FacteurKey'' = Inr [Str ''BAR-TH''] \<and>
       spec_equipment_key ''bar-th-001'' = ''bar'' \<and>
       getitem E ''FacteurKey'' \<noteq> Inr [Str (spec_equipment_key ''bar-th-001'')]"
  by code_simp

section \<open>C2: the efficiency rate\<close>

text \<open>
  Claim C2, amended. Take one input table and two efficiency rates. In every row the cumac
  \<open>k\<close> and the conversion factor \<open>f\<close> do not depend on the rate, the factor is positive, and
  the four fields are linear in the rate \<open>t\<close>: the real annual energy is \<open>k * f * t\<close>, the
  avoided CO2, the equivalent households and the avoided cost are that energy times a
  positive constant. Raising the rate strictly increases the four fields of a row exactly
  when the cumac of the row is above zero; in a row with cumac zero they stay at zero.
\<close>

theorem C2_linear_in_rate:
  assumes "load_and_process_data L (Workbook T) t1 = Inr E1"
      and "load_and_process_data L (Workbook T) t2 = Inr E2"
      and "wf_frame (strip_columns L T)"
      and "i < nrows T"
  shows "\<exists>k f. 0 < f \<and>
           cell_at E1 ''kWh_cumac'' i = Num k \<and> cell_at E2 ''kWh_cumac'' i = Num k \<and>
           cell_at E1 ''Facteur_Conversion'' i = Num f \<and>
           cell_at E2 ''Facteur_Conversion'' i = Num f \<and>
           rate_fields E1 i =
             [Num (k * f * t1), Num (k * f * t1 * EMISSION_CO2_KWH / 1000),
              Num (k * f * t1 / CONSO_MOYENNE_FOYER_KWH), Num (k * f * t1 * COUT_CHAUFFAGE_KWH)] \<and>
           rate_fields E2 i =
             [Num (k * f * t2), Num (k * f * t2 * EMISSION_CO2_KWH / 1000),
              Num (k * f * t2 / CONSO_MOYENNE_FOYER_KWH), Num (k * f * t2 * COUT_CHAUFFAGE_KWH)] \<and>
           (t1 < t2 \<longrightarrow>
              (list_all2 num_lt (rate_fields E1 i) (rate_fields E2 i) \<longleftrightarrow> 0 < k))"
proof -
  from assms(1) obtain D where D: "prepare L T = Inr D" and E1: "metrics L t1 D = Inr E1"
    by (auto simp: load_and_process_data_def process_prepare bind_err_eq_Inr)
  from assms(2) D have E2: "metrics L t2 D = Inr E2"
    by (simp add: load_and_process_data_def process_prepare)
  from rate_fields_row[OF D E1 assms(3,4)] obtain k f where
    kf: "(fillna (Num 0) \<circ> to_numeric L) (cell_at D ''Total'' i) = Num k"
      "cell_at D ''Facteur_Conversion'' i = Num f" "0 < f" and
    r1: "cell_at E1 ''kWh_cumac'' i = Num k" "cell_at E1 ''Facteur_Conversion'' i = Num f"
      "rate_fields E1 i =
             [Num (k * f * t1), Num (k * f * t1 * EMISSION_CO2_KWH / 1000),
              Num (k * f * t1 / CONSO_MOYENNE_FOYER_KWH), Num (k * f * t1 * COUT_CHAUFFAGE_KWH)]"
    by blast
  from rate_fields_row[OF D E2 assms(3,4)] kf(1,2) have
    r2: "cell_at E2 ''kWh_cumac'' i = Num k" "cell_at E2 ''Facteur_Conversion'' i = Num f"
      "rate_fields E2 i =
             [Num (k * f * t2), Num (k * f * t2 * EMISSION_CO2_KWH / 1000),
              Num (k * f * t2 / CONSO_MOYENNE_FOYER_KWH), Num (k * f * t2 * COUT_CHAUFFAGE_KWH)]"
    by auto
  have "list_all2 num_lt (rate_fields E1 i) (rate_fields E2 i) \<longleftrightarrow> 0 < k" if "t1 < t2"
    unfolding r1(3) r2(3) rate_fields_order using rate_order[OF kf(3) that] .
  with kf(3) r1 r2 show ?thesis by blast
qed

text \<open>
  The first case record has a cumac of 100000: its four fields are strictly larger at the
  rate 0.90 than at the rate 0.45.
\<close>

theorem C2_dossier_rates:
  "\<exists>E1 E2. load_and_process_data ascii_lib (Workbook sheet_dossiers) (45 / 100) = Inr E1 \<and>
       load_and_process_data ascii_lib (Workbook sheet_dossiers) (90 / 100) = Inr E2 \<and>
       cell_at E1 ''kWh_cumac'' 0 = Num 100000 \<and>
       list_all2 num_lt (rate_fields E1 0) (rate_fields E2 0)"
proof -
  have ev: "case load_and_process_data ascii_lib (Workbook sheet_dossiers) (45 / 100) of
          Inl e \<Rightarrow> False | Inr E \<Rightarrow> cell_at E ''kWh_cumac'' 0 = Num 100000"
    by code_simp
  then obtain E1 where
    E1: "load_and_process_data ascii_lib (Workbook sheet_dossiers) (45 / 100) = Inr E1" and
    c: "cell_at E1 ''kWh_cumac'' 0 = Num 100000"
    by (auto split: sum.splits)
  have "case load_and_process_data ascii_lib (Workbook sheet_dossiers) (90 / 100) of
          Inl e \<Rightarrow> False | Inr E \<Rightarrow> True"
    by code_simp
  then obtain E2 where
    E2: "load_and_process_data ascii_lib (Workbook sheet_dossiers) (90 / 100) = Inr E2"
    by (auto split: sum.splits)
  have wf: "wf_frame (strip_columns ascii_lib sheet_dossiers)"
    by code_simp
  have n: "0 < nrows sheet_dossiers"
    by (simp add: sheet_dossiers_def)
  from C2_linear_in_rate[OF E1 E2 wf n] c
  have "list_all2 num_lt (rate_fields E1 0) (rate_fields E2 0)"
    by auto
  with E1 E2 c show ?thesis by blast
qed

text \<open>
  Claim C2 as stated fails on a row without cumac: the third case record has the total 0, and
  its real annual energy is 0 at the rate 0.45 and at the rate 0.90; it does not increase.
\<close>

theorem C2_zero_cumac_row:
  "case (load_and_process_data ascii_lib (Workbook sheet_dossiers) (45 / 100),
         load_and_process_data ascii_lib (Workbook sheet_dossiers) (90 / 100)) of
     (Inr E1, Inr E2) \<Rightarrow>
       cell_at E1 ''Total'' 2 = Num 0 \<and> cell_at E2 ''Total'' 2 = Num 0 \<and>
       cell_at E1 ''kWh_reels_annuels'' 2 = Num 0 \<and> cell_at E2 ''kWh_reels_annuels'' 2 = Num 0 \<and>
       \<not> num_lt (cell_at E1 ''kWh_reels_annuels'' 2) (cell_at E2 ''kWh_reels_annuels'' 2)
   | _ \<Rightarrow> False"
  by code_simp

section \<open>C6: at most six labels a year\<close>

text \<open>
  Claim C6. For every table and every year, the breakdown of the year in the projection has at
  most six distinct category labels: the five categories with the highest total real annual
  energy over the whole table, computed once before the year loop, and the bucket
  \<^verbatim>\<open>Autres\<close>. When the projection is not empty: the top categories \<open>top_ops\<close> are at most five
  distinct categories of the totals by category of the whole table; a category that is not
  among them exists only when they are five, and its total is at most the total of each of
  them; the labels of every year are among the top categories and \<^verbatim>\<open>Autres\<close>; and the series
  is, year after year from the first deposit year to the horizon, the grouped sum over the
  rows in their window, each row labelled with its category when it is a top category and
  with \<^verbatim>\<open>Autres\<close> otherwise.
\<close>

theorem C6_at_most_six_labels:
  assumes "projection df cy h = Inr out" and "wf_frame df"
  shows "(\<forall>y. length (labels_of_year out y) \<le> 6) \<and>
         (out \<noteq> [] \<longrightarrow>
           (\<exists>start a d ks vs tops.
              start_year df = Inr start \<and> top_ops df = Inr tops \<and>
              getitem df ''Annee_Depot'' = Inr a \<and> getitem df ''Duree_Vie'' = Inr d \<and>
              getitem df ''FacteurKey'' = Inr ks \<and> getitem df ''GWh_reels_annuels'' = Inr vs \<and>
              length tops \<le> 5 \<and> distinct tops \<and> set tops \<subseteq> fst ` set (groupby_sum ks vs) \<and>
              (\<forall>p \<in> set (groupby_sum ks vs). fst p \<notin> set tops \<longrightarrow>
                 length tops = 5 \<and>
                 (\<forall>q \<in> set (groupby_sum ks vs). fst q \<in> set tops \<longrightarrow> snd p \<le> snd q)) \<and>
              (\<forall>y. set (labels_of_year out y) \<subseteq> set tops \<union> {''Autres''}) \<and>
              out = concat (map (\<lambda>y.
                   map (\<lambda>p. \<lparr>annee = y, type_operation = fst p, economies_GWh_an = snd p\<rparr>)
                     (groupby_sum (map (\<lambda>i. type_op tops (ks ! i)) (window_rows y a d))
                                  (map (\<lambda>i. vs ! i) (window_rows y a d))))
                 [start..cy + h])))"
proof (cases "out = []")
  case True
  then show ?thesis by (simp add: labels_of_year_def)
next
  case False
  from projection_series[OF assms(1) False assms(2)] obtain start a d ks vs tops where
    s: "start_year df = Inr start" "top_ops df = Inr tops"
      "getitem df ''Annee_Depot'' = Inr a" "getitem df ''Duree_Vie'' = Inr d"
      "getitem df ''FacteurKey'' = Inr ks" "getitem df ''GWh_reels_annuels'' = Inr vs" and
    series: "out = concat (map (\<lambda>y.
                   map (\<lambda>p. \<lparr>annee = y, type_operation = fst p, economies_GWh_an = snd p\<rparr>)
                     (groupby_sum (map (\<lambda>i. type_op tops (ks ! i)) (window_rows y a d))
                                  (map (\<lambda>i. vs ! i) (window_rows y a d))))
                 [start..cy + h])"
    by blast
  from projection_labels[OF assms(1) False] s(2) have
    lab: "\<forall>e \<in> set out. type_operation e \<in> set tops \<union> {''Autres''}"
    by auto
  note r = top_ops_rank[OF s(2) s(5) s(6)]
  note l = length_labels[OF lab r(1)]
  have six: "\<forall>y. length (labels_of_year out y) \<le> 6"
    using l(2) by blast
  have sub: "\<forall>y. set (labels_of_year out y) \<subseteq> set tops \<union> {''Autres''}"
    using l(1) by blast
  from six s r sub series show ?thesis
    by blast
qed

text \<open>
  With seven categories the five largest keep their name and the two smallest, 2 and 1 GWh,
  are summed under \<^verbatim>\<open>Autres\<close>: six labels in 2024 and in 2025.
\<close>

theorem C6_seven_categories:
  "\<exists>out. projection frame_seven_keys 2024 1 = Inr out \<and>
       top_ops frame_seven_keys = Inr [''BAR-TH'', ''BAR-EN'', ''BAR-EQ'', ''BAT-TH'', ''BAT-EN''] \<and>
       labels_of_year out 2024
         = [''Autres'', ''BAR-EN'', ''BAR-EQ'', ''BAR-TH'', ''BAT-EN'', ''BAT-TH''] \<and>
       labels_of_year out 2025
         = [''Autres'', ''BAR-EN'', ''BAR-EQ'', ''BAR-TH'', ''BAT-EN'', ''BAT-TH''] \<and>
       map economies_GWh_an (filter (\<lambda>e. annee e = 2024) out) = [3, 6, 5, 7, 3, 4] \<and>
       (\<forall>y. length (labels_of_year out y) \<le> 6)"
proof -
  have "case projection frame_seven_keys 2024 1 of
          Inl e \<Rightarrow> False
        | Inr out \<Rightarrow>
            labels_of_year out 2024
              = [''Autres'', ''BAR-EN'', ''BAR-EQ'', ''BAR-TH'', ''BAT-EN'', ''BAT-TH''] \<and>
            labels_of_year out 2025
              = [''Autres'', ''BAR-EN'', ''BAR-EQ'', ''BAR-TH'', ''BAT-EN'', ''BAT-TH''] \<and>
            map economies_GWh_an (filter (\<lambda>e. annee e = 2024) out) = [3, 6, 5, 7, 3, 4]"
    by code_simp
  then obtain out where
    out: "projection frame_seven_keys 2024 1 = Inr out" and
    labels: "labels_of_year out 2024
              = [''Autres'', ''BAR-EN'', ''BAR-EQ'', ''BAR-TH'', ''BAT-EN'', ''BAT-TH'']"
      "labels_of_year out 2025
              = [''Autres'', ''BAR-EN'', ''BAR-EQ'', ''BAR-TH'', ''BAT-EN'', ''BAT-TH'']"
      "map economies_GWh_an (filter (\<lambda>e. annee e = 2024) out) = [3, 6, 5, 7, 3, 4]"
    by (auto split: sum.splits)
  have wf: "wf_frame frame_seven_keys"
    by code_simp
  have tops: "top_ops frame_seven_keys
      = Inr [''BAR-TH'', ''BAR-EN'', ''BAR-EQ'', ''BAT-TH'', ''BAT-EN'']"
    by code_simp
  from C6_at_most_six_labels[OF out wf] have six: "\<forall>y. length (labels_of_year out y) \<le> 6"
    by blast
  show ?thesis
    by (intro exI[of _ out] conjI) (fact out labels tops six)+
qed

end
